theory Spec2Isabelle
  imports Complex_Main "HOL-Library.Sublist" "HOL-Library.Code_Target_Numeral"
begin

section \<open>JavaScript values used by the AdvisorMatch front end\<close>

text \<open>
  The two pages of the front end (\<^verbatim>\<open>frontend/js/app.js\<close>: the semantic search page and
  the BM25 page) are embedded function by function. A JavaScript string is the list of its
  UTF-16 code units, so that \<^verbatim>\<open>.length\<close> is \<open>length\<close> and \<^verbatim>\<open>.substring(0, n)\<close> is
  \<open>take n\<close>. String literals of the source are written \<open>lit ''...''\<close>.
\<close>

type_synonym jsstring = "nat list"

definition lit :: "string \<Rightarrow> jsstring" where
  "lit s = map of_char s"

text \<open>
  A property of a JSON object is absent (\<^verbatim>\<open>undefined\<close> when read), \<^verbatim>\<open>null\<close>, or a
  value of its type.
\<close>

datatype 'a field = Undefined | Null | Val 'a

text \<open>Truthiness (ToBoolean): the empty string and the number 0 are falsy.\<close>

fun truthy_str :: "jsstring field \<Rightarrow> bool" where
  "truthy_str (Val s) = (s \<noteq> [])"
| "truthy_str _ = False"

fun truthy_int :: "int field \<Rightarrow> bool" where
  "truthy_int (Val n) = (n \<noteq> 0)"
| "truthy_int _ = False"

text \<open>ToString of an integer-valued number: decimal digits, with a minus sign.\<close>

fun digits :: "nat \<Rightarrow> jsstring" where
  "digits n = (if n < 10 then [48 + n] else digits (n div 10) @ [48 + n mod 10])"

declare digits.simps [simp del]

definition int_str :: "int \<Rightarrow> jsstring" where
  "int_str i = (if i < 0 then 45 # digits (nat (- i)) else digits (nat i))"

text \<open>What a template literal \<^verbatim>\<open>${...}\<close> inserts for a property: ToString of its value.\<close>

fun tmpl_str :: "jsstring field \<Rightarrow> jsstring" where
  "tmpl_str Undefined = lit ''undefined''"
| "tmpl_str Null = lit ''null''"
| "tmpl_str (Val s) = s"

fun tmpl_int :: "int field \<Rightarrow> jsstring" where
  "tmpl_int Undefined = lit ''undefined''"
| "tmpl_int Null = lit ''null''"
| "tmpl_int (Val i) = int_str i"

text \<open>
  Numbers that need not be integers (scores, similarities, timings) are embedded as the
  real number a finite double denotes, and arithmetic on them is exact.
  \<^verbatim>\<open>Number.prototype.toFixed(f)\<close> follows ECMAScript: the sign is taken first, then
  \<open>n\<close> is the integer nearest to \<open>x * 10^f\<close> (the larger one on a tie), printed with
  at least \<open>f + 1\<close> digits and a point before the last \<open>f\<close>. (For \<open>x \<ge> 10^21\<close>
  ECMAScript prints exponent notation instead; no number of these pages comes near.)
\<close>

definition toFixed :: "real \<Rightarrow> nat \<Rightarrow> jsstring" where
  "toFixed x f =
     (let s = (if x < 0 then lit ''-'' else []);
          n = nat \<lfloor>\<bar>x\<bar> * 10 ^ f + 1 / 2\<rfloor>;
          m = digits n;
          m = (if f \<noteq> 0 \<and> length m \<le> f then replicate (f + 1 - length m) 48 @ m else m);
          k = length m
      in if f \<noteq> 0 then s @ take (k - f) m @ lit ''.'' @ drop (k - f) m else s @ m)"

text \<open>\<^verbatim>\<open>Math.PI\<close> is the double nearest to \<open>\<pi>\<close>.\<close>

definition Math_PI :: real where
  "Math_PI = 884279719003555 / 281474976710656"

text \<open>
  A decimal literal of the source denotes the double nearest to it. The literals
  \<^verbatim>\<open>0.5\<close>, \<^verbatim>\<open>1\<close>, \<^verbatim>\<open>50\<close> and \<^verbatim>\<open>100\<close> are exact; \<^verbatim>\<open>0.3\<close> is not: it is
  \<open>5404319552844595 / 2^54\<close>, a little below three tenths.
\<close>

definition double_0_3 :: real where
  "double_0_3 = 5404319552844595 / 18014398509481984"

text \<open>
  \<^verbatim>\<open>String.prototype.trim\<close> removes white space and line terminators from both ends.
\<close>

definition is_white_space :: "nat \<Rightarrow> bool" where
  "is_white_space c \<longleftrightarrow>
     c \<in> {9, 10, 11, 12, 13, 32, 160, 5760, 8232, 8233, 8239, 8287, 12288, 65279}
     \<or> (8192 \<le> c \<and> c \<le> 8202)"

definition trim :: "jsstring \<Rightarrow> jsstring" where
  "trim s = rev (dropWhile is_white_space (rev (dropWhile is_white_space s)))"

text \<open>
  \<^verbatim>\<open>parseInt(string)\<close> with no radix: leading white space is skipped, a sign is read,
  a prefix \<^verbatim>\<open>0x\<close> or \<^verbatim>\<open>0X\<close> selects radix 16, and the longest run of digits is read
  as an integer. The result is a Number, that is a double: \<^verbatim>\<open>NaN\<close> when there is no
  digit, otherwise the integer rounded to the nearest double (to the even mantissa on a
  tie), which is the integer itself below \<open>2^53\<close> and an infinity from \<open>2^1024 - 2^970\<close>
  on. (ECMAScript lets an implementation ignore decimal digits after the twentieth; the
  model reads them all, as V8 does. Minus zero is not told from zero: both are falsy.)
\<close>

datatype number = NaN | Finite int | Infinity | NegInfinity

definition digit_value :: "nat \<Rightarrow> nat option" where
  "digit_value c =
     (if 48 \<le> c \<and> c \<le> 57 then Some (c - 48)
      else if 97 \<le> c \<and> c \<le> 122 then Some (c - 97 + 10)
      else if 65 \<le> c \<and> c \<le> 90 then Some (c - 65 + 10)
      else None)"

definition is_digit :: "nat \<Rightarrow> nat \<Rightarrow> bool" where
  "is_digit R c = (case digit_value c of None \<Rightarrow> False | Some d \<Rightarrow> d < R)"

definition radix_value :: "nat \<Rightarrow> jsstring \<Rightarrow> nat" where
  "radix_value R Z = foldl (\<lambda>acc c. acc * R + the (digit_value c)) 0 Z"

text \<open>The number of binary digits of \<open>n\<close>.\<close>

fun bit_length :: "nat \<Rightarrow> nat" where
  "bit_length n = (if n = 0 then 0 else Suc (bit_length (n div 2)))"

declare bit_length.simps [simp del]

text \<open>
  The double nearest to a natural number, \<open>None\<close> when it is beyond the largest double:
  the number keeps its 53 leading binary digits, rounded on the digits dropped.
\<close>

definition to_double :: "nat \<Rightarrow> nat option" where
  "to_double n =
     (if n < 2 ^ 53 then Some n
      else
        let e = bit_length n - 53;
            q = n div 2 ^ e;
            r = n mod 2 ^ e;
            half = 2 ^ (e - 1);
            m = (if r > half \<or> (r = half \<and> odd q) then q + 1 else q);
            v = m * 2 ^ e
        in if v \<ge> 2 ^ 1024 then None else Some v)"

definition parseInt :: "jsstring \<Rightarrow> number" where
  "parseInt inputString =
     (let S = dropWhile is_white_space inputString;
          sign = (if S \<noteq> [] \<and> hd S = 45 then - 1 else 1 :: int);
          S = (if S \<noteq> [] \<and> (hd S = 43 \<or> hd S = 45) then tl S else S);
          hex = (take 2 S = lit ''0x'' \<or> take 2 S = lit ''0X'');
          R = (if hex then 16 else 10);
          S = (if hex then drop 2 S else S);
          Z = takeWhile (is_digit R) S
      in if Z = [] then NaN
         else (case to_double (radix_value R Z) of
                 None \<Rightarrow> if sign < 0 then NegInfinity else Infinity
               | Some mathInt \<Rightarrow> Finite (sign * int mathInt)))"

text \<open>
  What \<^verbatim>\<open>JSON.stringify\<close> writes for a Number: the number when it is finite, \<^verbatim>\<open>null\<close>
  otherwise.
\<close>

fun json_number :: "number \<Rightarrow> int field" where
  "json_number (Finite n) = Val n"
| "json_number _ = Null"

text \<open>What a thrown value carries: its \<^verbatim>\<open>message\<close> (\<open>message_of\<close>).\<close>

datatype exn = Error (message_of: jsstring) | TypeError (message_of: jsstring)

section \<open>The response of the search API\<close>

text \<open>
  The properties the pages read. Those the source guards with a truthiness test or
  \<^verbatim>\<open>||\<close>, and the nullable columns of \<^verbatim>\<open>schema.sql\<close>, may be absent or null.
  (\<open>profile_url\<close> is the professor's \<^verbatim>\<open>url\<close>.)
\<close>

record publication =
  title :: jsstring
  url :: "jsstring field"
  year :: "int field"
  citations :: "int field"
  venue :: "jsstring field"
  similarity :: real

record professor =
  name :: jsstring
  department :: "jsstring field"
  college :: "jsstring field"
  image_url :: "jsstring field"
  profile_url :: "jsstring field"
  interests :: "jsstring field"
  num_matching_papers :: int
  final_score :: real
  avg_similarity :: real
  recency_weight :: real
  activity_bonus :: real
  citation_impact :: real
  top_publications :: "publication list field"

record search_response =
  results :: "professor list field"
  total_results :: int
  query :: jsstring
  search_time_ms :: real

section \<open>The page\<close>

text \<open>
  The elements the scripts hold: the two inputs, and for each element written to, its
  text and whether its class list has \<^verbatim>\<open>hidden\<close>. The results container holds the
  cards appended to it, in order.
\<close>

record card =
  className :: jsstring
  innerHTML :: jsstring

record page =
  searchInput_value :: jsstring
  topKInput_value :: jsstring
  loadingSpinner_hidden :: bool
  errorMessage_textContent :: jsstring
  errorMessage_hidden :: bool
  resultsSection_hidden :: bool
  resultsInfo_textContent :: jsstring
  resultsContainer :: "card list"

text \<open>
  The body of the POST request (\<^verbatim>\<open>JSON.stringify\<close> of the object literal; the BM25 page
  sends no \<^verbatim>\<open>include_publications\<close>), and what \<^verbatim>\<open>fetch\<close> and \<^verbatim>\<open>response.json()\<close>
  come back with: the promise rejects, or there is a response with a status whose body
  parses or does not.
\<close>

record request =
  request_url :: jsstring
  body_query :: jsstring
  body_top_k :: "int field"
  body_include_publications :: "bool option"

datatype fetch_outcome = Rejected exn | Response int "exn + search_response"

definition API_BASE_URL :: jsstring where
  \<open>API_BASE_URL = lit ''http://localhost:8000''\<close>

subsection \<open>Utility functions (the same on both pages)\<close>

definition showLoading :: "page \<Rightarrow> page" where
  "showLoading s = s\<lparr>loadingSpinner_hidden := False\<rparr>"

definition hideLoading :: "page \<Rightarrow> page" where
  "hideLoading s = s\<lparr>loadingSpinner_hidden := True\<rparr>"

definition showError :: "jsstring \<Rightarrow> page \<Rightarrow> page" where
  "showError message s = s\<lparr>errorMessage_textContent := message, errorMessage_hidden := False\<rparr>"

definition hideError :: "page \<Rightarrow> page" where
  "hideError s = s\<lparr>errorMessage_hidden := True\<rparr>"

definition showResults :: "page \<Rightarrow> page" where
  "showResults s = s\<lparr>resultsSection_hidden := False\<rparr>"

definition hideResults :: "page \<Rightarrow> page" where
  "hideResults s = s\<lparr>resultsSection_hidden := True\<rparr>"

section \<open>The semantic search page\<close>

text \<open>
  The functions keep their names. Where a name of the source is already a constant here,
  the variable is renamed: \<open>q\<close> is \<^verbatim>\<open>query\<close>, \<open>element\<close> is \<^verbatim>\<open>card\<close>, and
  \<open>score\<close> is the field a colour is computed from. An expression of the source that a
  statement below needs to name is a definition of its own: the holes of the templates
  that hold a conditional, the loop \<open>appendCards\<close> of \<^verbatim>\<open>forEach\<close>, the info line
  \<open>resultsInfo_text\<close>, \<open>topK_of\<close> for \<^verbatim>\<open>parseInt(topKInput.value) || 10\<close>, and
  \<open>search_request\<close> for the body of the request.

  \<^verbatim>\<open>text.length\<close> of \<^verbatim>\<open>undefined\<close> or \<^verbatim>\<open>null\<close> throws a TypeError (the message is
  the engine's; V8's wording is used).
\<close>

definition truncateText :: "jsstring field \<Rightarrow> int \<Rightarrow> exn + jsstring field" where
  \<open>truncateText text maxLength =
     (case text of
        Undefined \<Rightarrow> Inl (TypeError (lit ''Cannot read properties of undefined (reading 'length')''))
      | Null \<Rightarrow> Inl (TypeError (lit ''Cannot read properties of null (reading 'length')''))
      | Val t \<Rightarrow>
          if int (length t) \<le> maxLength then Inr (Val t)
          else Inr (Val (take (nat maxLength) t @ lit ''...'')))\<close>

subsection \<open>createPublicationHTML\<close>

definition borderClass :: "real \<Rightarrow> jsstring" where
  \<open>borderClass score =
     (if score > 0.5 then lit ''pub-border-green''
      else if score \<ge> double_0_3 then lit ''pub-border-amber''
      else lit ''pub-border-red'')\<close>

text \<open>
  \<open>score\<close> is \<^verbatim>\<open>publication.similarity\<close> here and \<^verbatim>\<open>professor.final_score\<close> in the
  gauge below. The holes of the template that hold a conditional follow, each under a name.
\<close>

definition publication_title :: "publication \<Rightarrow> jsstring" where
  \<open>publication_title publication =
     (if truthy_str (url publication) then
        concat
          [lit ''<a href="'',
           tmpl_str (url publication),
           lit ''" target="_blank" class="publication-link">'',
           title publication,
           lit ''</a>'']
      else title publication)\<close>

definition year_text :: "publication \<Rightarrow> jsstring" where
  \<open>year_text publication =
     (if truthy_int (year publication) then tmpl_int (year publication) else lit ''N/A'')\<close>

definition citations_text :: "publication \<Rightarrow> jsstring" where
  \<open>citations_text publication =
     (if truthy_int (citations publication) then tmpl_int (citations publication) else int_str 0)\<close>

definition publication_venue :: "publication \<Rightarrow> jsstring" where
  \<open>publication_venue publication =
     (if truthy_str (venue publication) then
        concat
          [lit ''\<newline>'',
           lit ''                    <span>'',
           [8226],
           lit ''</span>\<newline>'',
           lit ''                    <span>'',
           tmpl_str (venue publication),
           lit ''</span>\<newline>'',
           lit ''                '']
      else [])\<close>

definition createPublicationHTML :: "publication \<Rightarrow> jsstring" where
  \<open>createPublicationHTML publication =
    concat
      [lit ''\<newline>'',
       lit ''        <div class="publication-item '',
       borderClass (similarity publication),
       lit ''">\<newline>'',
       lit ''            <div class="publication-title">\<newline>'',
       lit ''                '',
       publication_title publication,
       lit ''\<newline>'',
       lit ''            </div>\<newline>'',
       lit ''            <div class="publication-meta">\<newline>'',
       lit ''                <span>'',
       year_text publication,
       lit ''</span>\<newline>'',
       lit ''                <span>'',
       [8226],
       lit ''</span>\<newline>'',
       lit ''                <span>'',
       citations_text publication,
       lit '' citations</span>\<newline>'',
       lit ''                '',
       publication_venue publication,
       lit ''\<newline>'',
       lit ''                <span>'',
       [8226],
       lit ''</span>\<newline>'',
       lit ''                <span class="similarity-score">Paper Similarity: '',
       toFixed (similarity publication * 100) 1,
       lit ''%</span>\<newline>'',
       lit ''            </div>\<newline>'',
       lit ''        </div>\<newline>'',
       lit ''    '']\<close>

subsection \<open>createProfessorCard\<close>

definition scorePercent :: "real \<Rightarrow> jsstring" where
  "scorePercent score = toFixed (score * 100) 1"

definition gaugeColor :: "real \<Rightarrow> jsstring" where
  \<open>gaugeColor score =
     (if score > 0.5 then lit ''#28a745''
      else if score \<ge> double_0_3 then lit ''#ffc107''
      else lit ''#dc3545'')\<close>

definition radius :: real where
  "radius = 50"

definition circumference :: real where
  "circumference = Math_PI * radius"

definition dashArray :: real where
  "dashArray = circumference"

definition dashOffset :: "real \<Rightarrow> real" where
  "dashOffset score = circumference * (1 - score)"

definition card_image :: "professor \<Rightarrow> jsstring" where
  \<open>card_image professor =
     (if truthy_str (image_url professor) then
        concat
          [lit ''\<newline>'',
           lit ''                    <img src="'',
           tmpl_str (image_url professor),
           lit ''" alt="'',
           name professor,
           lit ''" class="professor-image">\<newline>'',
           lit ''                '']
      else [])\<close>

definition card_interests :: "professor \<Rightarrow> exn + jsstring" where
  \<open>card_interests professor =
     (if truthy_str (interests professor) then
        (case truncateText (interests professor) 200 of
           Inl e \<Rightarrow> Inl e
         | Inr text \<Rightarrow> Inr (
            concat
              [lit ''\<newline>'',
               lit ''                <div class="detail-row">\<newline>'',
               lit ''                    <span class="detail-label">Research Interests:</span>\<newline>'',
               lit ''                    <span class="detail-value">'',
               tmpl_str text,
               lit ''</span>\<newline>'',
               lit ''                </div>\<newline>'',
               lit ''            '']))
      else Inr [])\<close>

definition card_profile :: "professor \<Rightarrow> jsstring" where
  \<open>card_profile professor =
     (if truthy_str (profile_url professor) then
        concat
          [lit ''\<newline>'',
           lit ''                <div class="detail-row">\<newline>'',
           lit ''                    <span class="detail-label">Profile:</span>\<newline>'',
           lit ''                    <span class="detail-value">\<newline>'',
           lit ''                        <a href="'',
           tmpl_str (profile_url professor),
           lit ''" target="_blank">View Faculty Page '',
           [8594],
           lit ''</a>\<newline>'',
           lit ''                    </span>\<newline>'',
           lit ''                </div>\<newline>'',
           lit ''            '']
      else [])\<close>

definition card_publications :: "professor \<Rightarrow> jsstring" where
  \<open>card_publications professor =
     (case top_publications professor of
        Val pubs \<Rightarrow>
          if length pubs > 0 then
            concat
              [lit ''\<newline>'',
               lit ''            <div class="publications-section">\<newline>'',
               lit ''                <h4>Top Matching Publications</h4>\<newline>'',
               lit ''                '',
               concat (map createPublicationHTML pubs),
               lit ''\<newline>'',
               lit ''            </div>\<newline>'',
               lit ''        '']
          else []
      | _ \<Rightarrow> [])\<close>

text \<open>
  \<open>number_toString\<close> is ToString on a number that need not be an integer (the two dash
  lengths): the shortest decimal that reads back as the same double, which the embedding
  of numbers as reals cannot compute, so the cards take it as a parameter.
\<close>

definition createProfessorCard :: "(real \<Rightarrow> jsstring) \<Rightarrow> professor \<Rightarrow> nat \<Rightarrow> exn + card" where
  \<open>createProfessorCard number_toString professor rank =
     (case card_interests professor of
        Inl e \<Rightarrow> Inl e
      | Inr interests_html \<Rightarrow> Inr
          \<lparr>className = lit ''professor-card'',
           innerHTML =
            concat
              [lit ''\<newline>'',
               lit ''        <div class="professor-header">\<newline>'',
               lit ''            <div class="professor-header-content">\<newline>'',
               lit ''                '',
               card_image professor,
               lit ''\<newline>'',
               lit ''                <div class="professor-info">\<newline>'',
               lit ''                    <h3>'',
               int_str (int rank),
               lit ''. '',
               name professor,
               lit ''</h3>\<newline>'',
               lit ''                    <div class="professor-meta">\<newline>'',
               lit ''                        '',
               tmpl_str (department professor),
               lit '' '',
               [8226],
               lit '' '',
               tmpl_str (college professor),
               lit ''\<newline>'',
               lit ''                    </div>\<newline>'',
               lit ''                </div>\<newline>'',
               lit ''            </div>\<newline>'',
               lit ''            \<newline>'',
               lit ''            <div class="gauge-container">\<newline>'',
               lit ''                <svg viewBox="0 0 120 60" class="gauge-svg">\<newline>'',
               lit ''                    <!-- Background Arc -->\<newline>'',
               lit ''                    <path d="M 10 60 A 50 50 0 0 1 110 60" fill="none" stroke="#eee" stroke-width="15" />\<newline>'',
               lit ''                    <!-- Fill Arc -->\<newline>'',
               lit ''                    <path d="M 10 60 A 50 50 0 0 1 110 60" fill="none" stroke="'',
               gaugeColor (final_score professor),
               lit ''" stroke-width="15" \<newline>'',
               lit ''                          stroke-dasharray="'',
               number_toString dashArray,
               lit ''" stroke-dashoffset="'',
               number_toString (dashOffset (final_score professor)),
               lit ''" />\<newline>'',
               lit ''                </svg>\<newline>'',
               lit ''                <div class="gauge-text">'',
               scorePercent (final_score professor),
               lit ''%</div>\<newline>'',
               lit ''                <div class="gauge-label">Match Score</div>\<newline>'',
               lit ''            </div>\<newline>'',
               lit ''        </div>\<newline>'',
               lit ''        \<newline>'',
               lit ''        <div class="professor-details">\<newline>'',
               lit ''            '',
               interests_html,
               lit ''\<newline>'',
               lit ''            \<newline>'',
               lit ''            <div class="detail-row">\<newline>'',
               lit ''                <span class="detail-label">Matching Papers:</span>\<newline>'',
               lit ''                <span class="detail-value">'',
               int_str (num_matching_papers professor),
               lit ''</span>\<newline>'',
               lit ''            </div>\<newline>'',
               lit ''            \<newline>'',
               lit ''            '',
               card_profile professor,
               lit ''\<newline>'',
               lit ''        </div>\<newline>'',
               lit ''        \<newline>'',
               lit ''        <div class="score-breakdown">\<newline>'',
               lit ''            <div class="score-item">\<newline>'',
               lit ''                <div class="score-item-label">Paper Similarity</div>\<newline>'',
               lit ''                <div class="score-item-value">'',
               toFixed (avg_similarity professor * 100) 1,
               lit ''%</div>\<newline>'',
               lit ''            </div>\<newline>'',
               lit ''            <div class="score-item">\<newline>'',
               lit ''                <div class="score-item-label">Recency</div>\<newline>'',
               lit ''                <div class="score-item-value">'',
               toFixed (recency_weight professor * 100) 1,
               lit ''%</div>\<newline>'',
               lit ''            </div>\<newline>'',
               lit ''            <div class="score-item">\<newline>'',
               lit ''                <div class="score-item-label">Activity</div>\<newline>'',
               lit ''                <div class="score-item-value">+'',
               toFixed (activity_bonus professor * 100) 1,
               lit ''%</div>\<newline>'',
               lit ''            </div>\<newline>'',
               lit ''            <div class="score-item">\<newline>'',
               lit ''                <div class="score-item-label">Citations</div>\<newline>'',
               lit ''                <div class="score-item-value">'',
               toFixed (citation_impact professor * 100) 1,
               lit ''%</div>\<newline>'',
               lit ''            </div>\<newline>'',
               lit ''        </div>\<newline>'',
               lit ''        \<newline>'',
               lit ''        '',
               card_publications professor,
               lit ''\<newline>'',
               lit ''    '']\<rparr>)\<close>

subsection \<open>displayResults\<close>

text \<open>
  The \<^verbatim>\<open>forEach\<close> loop: a card is appended per professor, with rank \<open>index + 1\<close>; a
  throw leaves the loop with the cards appended so far.
\<close>

fun appendCards :: "(real \<Rightarrow> jsstring) \<Rightarrow> professor list \<Rightarrow> nat \<Rightarrow> page \<Rightarrow> exn option \<times> page" where
  "appendCards number_toString [] index s = (None, s)"
| "appendCards number_toString (professor # rest) index s =
     (case createProfessorCard number_toString professor (index + 1) of
        Inl e \<Rightarrow> (Some e, s)
      | Inr element \<Rightarrow>
          appendCards number_toString rest (index + 1)
            (s\<lparr>resultsContainer := resultsContainer s @ [element]\<rparr>))"

definition resultsInfo_text :: "search_response \<Rightarrow> jsstring" where
  \<open>resultsInfo_text data =
        concat
          [lit ''Found '',
           int_str (total_results data),
           lit '' advisor'',
           (if total_results data \<noteq> 1 then lit ''s'' else []),
           lit '' for "'',
           query data,
           lit ''" ('',
           toFixed (search_time_ms data) 0,
           lit ''ms)'']\<close>

definition displayResults :: "(real \<Rightarrow> jsstring) \<Rightarrow> search_response \<Rightarrow> page \<Rightarrow> exn option \<times> page" where
  \<open>displayResults number_toString data s =
     (case results data of
        Val professors \<Rightarrow>
          if length professors = 0 then
            (None, showError (lit ''No advisors found for your query. Try different keywords.'') s)
          else
            (let s = s\<lparr>resultsInfo_textContent := resultsInfo_text data\<rparr>;
                 s = s\<lparr>resultsContainer := []\<rparr>
             in case appendCards number_toString professors 0 s of
                  (Some e, s) \<Rightarrow> (Some e, s)
                | (None, s) \<Rightarrow> (None, showResults s))
      | _ \<Rightarrow> (None, showError (lit ''No advisors found for your query. Try different keywords.'') s))\<close>

subsection \<open>performSearch\<close>

text \<open>
  \<open>fetch\<close> is the server as the page sees it. The result is the page after the search
  has settled and the requests that were sent. (\<^verbatim>\<open>console.error\<close> is not modelled.)
\<close>

definition topK_of :: "jsstring \<Rightarrow> number" where
  "topK_of v =
     (case parseInt v of
        NaN \<Rightarrow> Finite 10
      | Finite n \<Rightarrow> if n = 0 then Finite 10 else Finite n
      | Infinity \<Rightarrow> Infinity
      | NegInfinity \<Rightarrow> NegInfinity)"

definition search_request :: "jsstring \<Rightarrow> number \<Rightarrow> request" where
  \<open>search_request q topK =
     \<lparr>request_url = API_BASE_URL @ lit ''/api/search'',
      body_query = q, body_top_k = json_number topK, body_include_publications = Some True\<rparr>\<close>

definition performSearch :: "(real \<Rightarrow> jsstring) \<Rightarrow> (request \<Rightarrow> fetch_outcome) \<Rightarrow> page \<Rightarrow> page \<times> request list" where
  \<open>performSearch number_toString fetch s =
     (let q = trim (searchInput_value s) in
      if q = [] then (showError (lit ''Please enter a research query'') s, [])
      else
        (let s = hideResults (hideError (showLoading s));
             topK = topK_of (topKInput_value s);
             req = search_request q topK;
             (thrown, s) =
               (case fetch req of
                  Rejected error \<Rightarrow> (Some error, s)
                | Response status body \<Rightarrow>
                    if \<not> (200 \<le> status \<and> status \<le> 299) then
                      (Some (Error (lit ''API error: '' @ int_str status)), s)
                    else (case body of
                            Inl error \<Rightarrow> (Some error, s)
                          | Inr data \<Rightarrow> displayResults number_toString data s));
             s = (case thrown of
                    None \<Rightarrow> s
                  | Some error \<Rightarrow>
                      showError (concat [lit ''Search failed: '', message_of error,
                        lit ''. Make sure the API server is running at '', API_BASE_URL]) s)
         in (hideLoading s, [req])))\<close>

section \<open>The BM25 page\<close>

text \<open>
  The second script uses the same function names; here they carry the prefix \<open>bm25_\<close>.
  Its \<^verbatim>\<open>truncateText\<close> returns a missing or empty text as it is, and its
  \<^verbatim>\<open>displayResults\<close> builds the cards inline (\<open>bm25_card\<close>).
\<close>

definition bm25_truncateText :: "jsstring field \<Rightarrow> int \<Rightarrow> jsstring field" where
  \<open>bm25_truncateText text maxLength =
     (case text of
        Val t \<Rightarrow>
          if t = [] \<or> int (length t) \<le> maxLength then Val t
          else Val (take (nat maxLength) t @ lit ''...'')
      | _ \<Rightarrow> text)\<close>

definition bm25_publication_title :: "publication \<Rightarrow> jsstring" where
  \<open>bm25_publication_title pub =
     (if truthy_str (url pub) then
        concat
          [lit ''<a href="'',
           tmpl_str (url pub),
           lit ''" target="_blank" style="color: inherit; text-decoration: none; border-bottom: 1px dotted #666;">'',
           title pub,
           lit ''</a>'']
      else title pub)\<close>

definition bm25_publication_html :: "publication \<Rightarrow> jsstring" where
  \<open>bm25_publication_html pub =
    concat
      [lit ''\<newline>'',
       lit ''            <div class="publication-item">\<newline>'',
       lit ''                <div class="publication-title">\<newline>'',
       lit ''                    '',
       bm25_publication_title pub,
       lit ''\<newline>'',
       lit ''                </div>\<newline>'',
       lit ''                <div class="publication-meta">\<newline>'',
       lit ''                    <span class="similarity-score">BM25: '',
       toFixed (similarity pub) 2,
       lit ''</span>\<newline>'',
       lit ''                    <span>'',
       [8226],
       lit ''</span>\<newline>'',
       lit ''                    <span>'',
       year_text pub,
       lit ''</span>\<newline>'',
       lit ''                    <span>'',
       [8226],
       lit ''</span>\<newline>'',
       lit ''                    <span>'',
       citations_text pub,
       lit '' citations</span>\<newline>'',
       lit ''                </div>\<newline>'',
       lit ''            </div>\<newline>'',
       lit ''        '']\<close>

text \<open>
  The body of the \<^verbatim>\<open>forEach\<close> callback up to the card it appends.
  \<^verbatim>\<open>prof.top_publications.map\<close> throws when the property is absent or null.
\<close>

definition bm25_card :: "professor \<Rightarrow> exn + card" where
  \<open>bm25_card prof =
     (case top_publications prof of
        Undefined \<Rightarrow> Inl (TypeError (lit ''Cannot read properties of undefined (reading 'map')''))
      | Null \<Rightarrow> Inl (TypeError (lit ''Cannot read properties of null (reading 'map')''))
      | Val pubs \<Rightarrow>
          (let pubsHtml = concat (map bm25_publication_html pubs) in Inr
          \<lparr>className = lit ''professor-card'',
           innerHTML =
            concat
              [lit ''\<newline>'',
               lit ''            <div class="professor-header">\<newline>'',
               lit ''                <div class="professor-header-content">\<newline>'',
               lit ''                    <img src="'',
               (if truthy_str (image_url prof) then tmpl_str (image_url prof)
                else lit ''https://via.placeholder.com/120''),
               lit ''" alt="'',
               name prof,
               lit ''" class="professor-image" onerror="this.src='https://via.placeholder.com/120'">\<newline>'',
               lit ''                    <div class="professor-info">\<newline>'',
               lit ''                        <h3>'',
               name prof,
               lit ''</h3>\<newline>'',
               lit ''                        <div class="professor-meta">'',
               tmpl_str (department prof),
               lit '' '',
               [8226],
               lit '' '',
               tmpl_str (college prof),
               lit ''</div>\<newline>'',
               lit ''                        <div class="professor-details">\<newline>'',
               lit ''                            <div class="detail-row">\<newline>'',
               lit ''                                <span class="detail-label">Research Interests:</span>\<newline>'',
               lit ''                                <span class="detail-value">'',
               tmpl_str (bm25_truncateText (interests prof) 100),
               lit ''</span>\<newline>'',
               lit ''                            </div>\<newline>'',
               lit ''                            <div class="detail-row">\<newline>'',
               lit ''                                <span class="detail-label">Matching Papers:</span>\<newline>'',
               lit ''                                <span class="detail-value">'',
               int_str (num_matching_papers prof),
               lit ''</span>\<newline>'',
               lit ''                            </div>\<newline>'',
               lit ''                        </div>\<newline>'',
               lit ''                    </div>\<newline>'',
               lit ''                </div>\<newline>'',
               lit ''                \<newline>'',
               lit ''                <div class="gauge-container">\<newline>'',
               lit ''                    <div style="text-align: center;">\<newline>'',
               lit ''                        <div style="font-size: 1.5rem; font-weight: bold; color: #500000;">'',
               toFixed (final_score prof) 1,
               lit ''</div>\<newline>'',
               lit ''                        <div style="font-size: 0.8rem; color: #666;">Avg BM25</div>\<newline>'',
               lit ''                    </div>\<newline>'',
               lit ''                </div>\<newline>'',
               lit ''            </div>\<newline>'',
               lit ''\<newline>'',
               lit ''            <div class="publications-section">\<newline>'',
               lit ''                <h4>Top Matching Publications (Lexical Match)</h4>\<newline>'',
               lit ''                '',
               pubsHtml,
               lit ''\<newline>'',
               lit ''            </div>\<newline>'',
               lit ''        '']\<rparr>))\<close>

fun bm25_appendCards :: "professor list \<Rightarrow> page \<Rightarrow> exn option \<times> page" where
  "bm25_appendCards [] s = (None, s)"
| "bm25_appendCards (prof # rest) s =
     (case bm25_card prof of
        Inl e \<Rightarrow> (Some e, s)
      | Inr element \<Rightarrow> bm25_appendCards rest (s\<lparr>resultsContainer := resultsContainer s @ [element]\<rparr>))"

definition bm25_resultsInfo_text :: "search_response \<Rightarrow> jsstring" where
  \<open>bm25_resultsInfo_text data =
        concat
          [lit ''Found '',
           int_str (total_results data),
           lit '' advisors for "'',
           query data,
           lit ''" ('',
           toFixed (search_time_ms data) 0,
           lit ''ms)'']\<close>

definition bm25_displayResults :: "search_response \<Rightarrow> page \<Rightarrow> exn option \<times> page" where
  \<open>bm25_displayResults data s =
     (case results data of
        Val professors \<Rightarrow>
          if length professors = 0 then (None, showError (lit ''No matches found.'') s)
          else
            (let s = s\<lparr>resultsInfo_textContent := bm25_resultsInfo_text data\<rparr>;
                 s = s\<lparr>resultsContainer := []\<rparr>
             in case bm25_appendCards professors s of
                  (Some e, s) \<Rightarrow> (Some e, s)
                | (None, s) \<Rightarrow> (None, showResults s))
      | _ \<Rightarrow> (None, showError (lit ''No matches found.'') s))\<close>

definition bm25_search_request :: "jsstring \<Rightarrow> request" where
  \<open>bm25_search_request q =
     \<lparr>request_url = API_BASE_URL @ lit ''/api/bm25/search'',
      body_query = q, body_top_k = Val 20, body_include_publications = None\<rparr>\<close>

definition bm25_performSearch :: "(request \<Rightarrow> fetch_outcome) \<Rightarrow> page \<Rightarrow> page \<times> request list" where
  \<open>bm25_performSearch fetch s =
     (let q = trim (searchInput_value s) in
      if q = [] then (s, [])
      else
        (let s = hideResults (hideError (showLoading s));
             req = bm25_search_request q;
             (thrown, s) =
               (case fetch req of
                  Rejected error \<Rightarrow> (Some error, s)
                | Response status body \<Rightarrow>
                    if \<not> (200 \<le> status \<and> status \<le> 299) then
                      (Some (Error (lit ''API error: '' @ int_str status)), s)
                    else (case body of
                            Inl error \<Rightarrow> (Some error, s)
                          | Inr data \<Rightarrow> bm25_displayResults data s));
             s = (case thrown of
                    None \<Rightarrow> s
                  | Some error \<Rightarrow> showError (lit ''Search failed: '' @ message_of error) s)
         in (hideLoading s, [req])))\<close>

section \<open>The score composer\<close>

text \<open>
  Modelled from the spec: the score composer \<^verbatim>\<open>compose(score_card, mode)\<close> of the ranking
  engine, which is not among the sources (the pages only display the \<^verbatim>\<open>final_score\<close>
  the server sends). A result object carries the fields of its score card, so the card is
  read from the \<open>professor\<close> record. Semantic mode: the weighted sum of similarity,
  recency and citation impact plus the activity bonus, clamped to \<open>[0,1]\<close> as a final
  step; lexical mode: \<^verbatim>\<open>avg_similarity\<close> directly. The weights are configuration, with
  the defaults of the spec.
\<close>

datatype mode = Semantic | Lexical

record weights =
  similarity_weight :: real
  recency_weight_factor :: real
  citation_weight :: real
  activity_cap :: real

definition default_weights :: weights where
  "default_weights =
     \<lparr>similarity_weight = 0.6, recency_weight_factor = 0.2, citation_weight = 0.1,
      activity_cap = 0.15\<rparr>"

definition compose :: "weights \<Rightarrow> professor \<Rightarrow> mode \<Rightarrow> real" where
  "compose w score_card m =
     (case m of
        Semantic \<Rightarrow>
          max 0 (min 1
            (similarity_weight w * avg_similarity score_card
             + recency_weight_factor w * recency_weight score_card
             + citation_weight w * citation_impact score_card
             + activity_bonus score_card))
      | Lexical \<Rightarrow> avg_similarity score_card)"

section \<open>Reference definitions and sample inputs\<close>

text \<open>What the specification says \<^verbatim>\<open>truncateText\<close> returns on a string.\<close>

definition truncateText_spec :: "jsstring \<Rightarrow> int \<Rightarrow> jsstring" where
  \<open>truncateText_spec text maxLength =
     (if int (length text) \<le> maxLength then text else take (nat maxLength) text @ lit ''...'')\<close>

text \<open>A property that is absent or null.\<close>

fun missing :: "'a field \<Rightarrow> bool" where
  "missing (Val v) = False"
| "missing _ = True"

text \<open>
  Two result objects that differ at most in the three fields the lexical path is said not
  to read.
\<close>

definition differ_only_in_unread :: "professor \<Rightarrow> professor \<Rightarrow> bool" where
  "differ_only_in_unread p q \<longleftrightarrow>
     q = p\<lparr>recency_weight := recency_weight q, activity_bonus := activity_bonus q,
           citation_impact := citation_impact q\<rparr>"

text \<open>
  What the user sees of a page: the spinner, the error banner unless hidden, the results
  unless hidden.
\<close>

definition visible :: "page \<Rightarrow> bool \<times> jsstring option \<times> (jsstring \<times> card list) option" where
  "visible s =
     (loadingSpinner_hidden s,
      if errorMessage_hidden s then None else Some (errorMessage_textContent s),
      if resultsSection_hidden s then None else Some (resultsInfo_textContent s, resultsContainer s))"

text \<open>
  Sample inputs. \<open>sample_number_toString\<close> prints fourteen decimals, which is what
  ToString gives for the dash array \<^verbatim>\<open>157.07963267948966\<close>; \<open>offline\<close> is a server that
  cannot be reached. The score card of \<open>bare_professor\<close> is the scenario of the
  specification (final score 0.68).
\<close>

definition sample_number_toString :: "real \<Rightarrow> jsstring" where
  "sample_number_toString x = toFixed x 14"

definition offline :: "request \<Rightarrow> fetch_outcome" where
  \<open>offline req = Rejected (TypeError (lit ''Failed to fetch''))\<close>

definition blank_page :: page where
  \<open>blank_page =
     \<lparr>searchInput_value = lit ''   '', topKInput_value = lit ''10'',
      loadingSpinner_hidden = True, errorMessage_textContent = [], errorMessage_hidden = True,
      resultsSection_hidden = True, resultsInfo_textContent = [], resultsContainer = []\<rparr>\<close>

definition robotics_page :: page where
  \<open>robotics_page =
     \<lparr>searchInput_value = lit '' robotics '', topKInput_value = lit ''50'',
      loadingSpinner_hidden = True, errorMessage_textContent = [], errorMessage_hidden = True,
      resultsSection_hidden = True, resultsInfo_textContent = [], resultsContainer = []\<rparr>\<close>

text \<open>
  Two pages whose top-k input is an integer no double holds: \<open>2^53 + 1\<close>, and a one
  followed by 309 zeros.
\<close>

definition rounding_page :: page where
  \<open>rounding_page = robotics_page\<lparr>topKInput_value := lit ''9007199254740993''\<rparr>\<close>

definition overflow_page :: page where
  \<open>overflow_page = robotics_page\<lparr>topKInput_value := lit ''1'' @ replicate 309 48\<rparr>\<close>

definition stale_page :: page where
  \<open>stale_page =
     \<lparr>searchInput_value = lit ''robotics'', topKInput_value = lit ''7'',
      loadingSpinner_hidden = False, errorMessage_textContent = lit ''Search failed: 500'',
      errorMessage_hidden = False, resultsSection_hidden = False,
      resultsInfo_textContent = lit ''Found 1 advisor for "vision" (3ms)'',
      resultsContainer =
        [\<lparr>className = lit ''professor-card'', innerHTML = lit ''<h3>1. Old Card</h3>''\<rparr>]\<rparr>\<close>

definition bare_publication :: publication where
  \<open>bare_publication =
     \<lparr>title = lit ''Planning under uncertainty'', url = Undefined, year = Null,
      citations = Undefined, venue = Null, similarity = 0.42\<rparr>\<close>

definition bare_professor :: professor where
  \<open>bare_professor =
     \<lparr>name = lit ''Ada Lovelace'', department = Val (lit ''Computer Science''), college = Null,
      image_url = Undefined, profile_url = Null, interests = Undefined,
      num_matching_papers = 1, final_score = 0.68, avg_similarity = 0.7,
      recency_weight = 0.9, activity_bonus = 0.06, citation_impact = 0.2,
      top_publications = Val [bare_publication]\<rparr>\<close>

definition other_scores :: professor where
  "other_scores =
     bare_professor\<lparr>recency_weight := 0.1, activity_bonus := 0.15, citation_impact := 1\<rparr>"

definition second_professor :: professor where
  \<open>second_professor =
     \<lparr>name = lit ''Grace Hopper'', department = Val (lit ''Computer Science''),
      college = Val (lit ''Engineering''), image_url = Val (lit ''hopper.png''),
      profile_url = Val (lit ''https://example.org/hopper''),
      interests = Val (lit ''compilers''),
      num_matching_papers = 2, final_score = 0.31, avg_similarity = 0.4,
      recency_weight = 0.2, activity_bonus = 0.03, citation_impact = 0,
      top_publications = Undefined\<rparr>\<close>

definition two_hits :: search_response where
  \<open>two_hits =
     \<lparr>results = Val [bare_professor, second_professor], total_results = 2,
      query = lit ''robotics'', search_time_ms = 12.4\<rparr>\<close>

definition no_hits :: search_response where
  \<open>no_hits =
     \<lparr>results = Val [], total_results = 0, query = lit ''robotics'', search_time_ms = 12\<rparr>\<close>

section \<open>Basic facts\<close>

lemma lit_eq_Nil [simp]: "lit s = [] \<longleftrightarrow> s = []"
  by (simp add: lit_def)

lemma digits_0: "digits 0 = [48]"
  by (simp add: digits.simps)

lemma int_str_0: \<open>int_str 0 = lit ''0''\<close>
  by (simp add: int_str_def digits_0 lit_def)

lemma int_str_small: \<open>int_str 1 = lit ''1'' \<and> int_str 2 = lit ''2''\<close>
  by (simp add: int_str_def digits.simps lit_def)

lemma trim_blank: \<open>trim (lit ''   '') = []\<close>
  by (simp add: trim_def lit_def is_white_space_def)

lemma trim_robotics: \<open>trim (lit '' robotics '') = lit ''robotics''\<close>
  by (simp add: trim_def lit_def is_white_space_def)

lemma parseInt_50: \<open>parseInt (lit ''50'') = Finite 50\<close>
  by (simp add: parseInt_def lit_def is_white_space_def is_digit_def digit_value_def
      radix_value_def to_double_def)

lemma parseInt_examples:
  \<open>parseInt (lit '' -0x1F'') = Finite (- 31) \<and> parseInt (lit ''abc'') = NaN \<and>
   parseInt (lit ''12px'') = Finite 12 \<and> parseInt [] = NaN \<and>
   parseInt (lit ''-0'') = Finite 0\<close>
  by (simp add: parseInt_def lit_def is_white_space_def is_digit_def digit_value_def
      radix_value_def to_double_def)

text \<open>Below \<open>2^53\<close> the integer read is the result; beyond, it is rounded.\<close>

lemma to_double_exact: "n < 2 ^ 53 \<Longrightarrow> to_double n = Some n"
  by (simp add: to_double_def)

lemma bit_length_2_53_1: "bit_length 9007199254740993 = 54"
  by (simp add: bit_length.simps)

lemma parseInt_rounds: \<open>parseInt (lit ''9007199254740993'') = Finite 9007199254740992\<close>
  by (simp add: parseInt_def lit_def is_white_space_def is_digit_def digit_value_def
      radix_value_def to_double_def bit_length_2_53_1 Let_def)

lemma radix_value_zeros:
  "foldl (\<lambda>acc c. acc * 10 + the (digit_value c)) a (replicate k 48) = a * 10 ^ k"
  by (induction k arbitrary: a) (simp_all add: digit_value_def)

text \<open>An integer from \<open>2^1024\<close> on has no double: the result is an infinity.\<close>

lemma bit_length_ge: "2 ^ k \<le> n \<Longrightarrow> k < bit_length n"
proof (induction k arbitrary: n)
  case 0
  then show ?case by (subst bit_length.simps) simp
next
  case (Suc k)
  then have "2 ^ k \<le> n div 2" by simp
  then have "k < bit_length (n div 2)" by (rule Suc.IH)
  moreover have "(0::nat) < 2 ^ Suc k" by simp
  then have "n \<noteq> 0" using Suc.prems by linarith
  ultimately show ?case by (subst bit_length.simps) simp
qed

lemma bit_length_lower: "n \<noteq> 0 \<Longrightarrow> 2 ^ (bit_length n - 1) \<le> n"
proof (induction n rule: bit_length.induct)
  case (1 n)
  show ?case
  proof (cases "n div 2 = 0")
    case True
    then have "bit_length (n div 2) = 0" by (simp add: bit_length.simps)
    then have "bit_length n = 1" using "1.prems" by (subst bit_length.simps) simp
    then show ?thesis using "1.prems" by simp
  next
    case False
    then have ih: "2 ^ (bit_length (n div 2) - 1) \<le> n div 2"
      using "1.IH" "1.prems" by simp
    have pos: "0 < bit_length (n div 2)"
      using False by (subst bit_length.simps) simp
    have "bit_length n = Suc (bit_length (n div 2))"
      using "1.prems" by (subst bit_length.simps) simp
    then have "2 ^ (bit_length n - 1) = 2 * 2 ^ (bit_length (n div 2) - 1)"
      using pos by (cases "bit_length (n div 2)") simp_all
    also have "\<dots> \<le> 2 * (n div 2)" using ih by simp
    also have "\<dots> \<le> n" by simp
    finally show ?thesis .
  qed
qed

lemma to_double_overflow:
  assumes "2 ^ 1024 \<le> n"
  shows "to_double n = None"
proof -
  define e where "e = bit_length n - 53"
  define q where "q = n div 2 ^ e"
  have b: "1024 < bit_length n"
    using assms by (rule bit_length_ge)
  then have e: "972 \<le> e"
    by (simp add: e_def)
  have "(0::nat) < 2 ^ 1024" by simp
  then have n0: "n \<noteq> 0" using assms by linarith
  have le: "e \<le> bit_length n - 1"
    by (simp add: e_def)
  have "(2::nat) ^ 52 = 2 ^ (bit_length n - 1 - e)"
    using b by (simp add: e_def)
  also have "\<dots> = 2 ^ (bit_length n - 1) div 2 ^ e"
    by (rule power_diff) (use le in simp_all)
  also have "\<dots> \<le> q"
    unfolding q_def using bit_length_lower [OF n0] by (rule div_le_mono)
  finally have q: "2 ^ 52 \<le> q" .
  have "(2::nat) ^ 1024 = 2 ^ 52 * 2 ^ 972"
    by simp
  also have "\<dots> \<le> q * 2 ^ e"
  proof (rule mult_le_mono)
    show "2 ^ 52 \<le> q" by (rule q)
    show "(2::nat) ^ 972 \<le> 2 ^ e" using e by (rule power_increasing) simp
  qed
  finally have v: "2 ^ 1024 \<le> q * 2 ^ e" .
  then have v': "2 ^ 1024 \<le> (q + 1) * 2 ^ e"
    by (simp add: algebra_simps)
  have big: "\<not> n < 2 ^ 53"
  proof
    assume "n < 2 ^ 53"
    moreover have "(2::nat) ^ 53 \<le> 2 ^ 1024" by simp
    ultimately show False using assms by linarith
  qed
  show ?thesis
    unfolding to_double_def Let_def e_def [symmetric] q_def [symmetric]
    using big v v' by (simp del: power_numeral One_nat_def)
qed

lemma parseInt_overflows: \<open>parseInt (lit ''1'' @ replicate 309 48) = Infinity\<close>
proof -
  have z: "is_digit 10 48" "is_digit 10 49" "\<not> is_white_space 49"
    by (simp_all add: is_digit_def digit_value_def is_white_space_def)
  have t: "takeWhile (is_digit 10) (49 # replicate 309 48) = 49 # replicate 309 48"
    using z by simp
  have "radix_value 10 (49 # replicate 309 48) = the (digit_value 49) * 10 ^ 309"
    unfolding radix_value_def by (simp only: foldl.simps radix_value_zeros) simp
  then have r: "radix_value 10 (49 # replicate 309 48) = 10 ^ 309"
    by (simp add: digit_value_def)
  have "(2::nat) ^ 1024 \<le> 10 ^ 309"
    by simp
  then have o: "to_double (radix_value 10 (49 # replicate 309 48)) = None"
    unfolding r by (rule to_double_overflow)
  have h: "take 2 (49 # replicate 309 48) = [49, 48]"
    by (simp add: take_Cons')
  have l: \<open>lit ''1'' @ replicate 309 48 = 49 # replicate 309 48\<close> \<open>lit ''0x'' = [48, 120]\<close>
    \<open>lit ''0X'' = [48, 88]\<close>
    by (simp_all add: lit_def)
  show ?thesis
    unfolding parseInt_def l using z by (simp add: Let_def h t o)
qed

text \<open>The scenario of the specification: 0.6 * 0.7 + 0.2 * 0.9 + 0.1 * 0.2 + 0.06 = 0.68.\<close>

lemma scenario_score: "compose default_weights bare_professor Semantic = 0.68"
  by (simp add: compose_def default_weights_def bare_professor_def)

section \<open>Cards are always built\<close>

text \<open>
  \<^verbatim>\<open>truncateText\<close> of the semantic page throws on a missing text, but the card only calls
  it behind the truthiness test of \<^verbatim>\<open>professor.interests\<close>.
\<close>

lemma card_interests_total: "\<exists>h. card_interests professor = Inr h"
  by (cases "interests professor") (simp_all add: card_interests_def truncateText_def)

lemma createProfessorCard_total:
  "\<exists>element. createProfessorCard number_toString professor rank = Inr element"
proof -
  obtain h where "card_interests professor = Inr h"
    using card_interests_total by blast
  then show ?thesis
    by (simp add: createProfessorCard_def)
qed

text \<open>The loop appends one card per professor, numbered from \<open>k + 1\<close>, whatever the page.\<close>

lemma appendCards_total:
  "\<exists>cs. length cs = length ps \<and>
     (\<forall>i<length ps. createProfessorCard nts (ps ! i) (k + i + 1) = Inr (cs ! i)) \<and>
     (\<forall>s. appendCards nts ps k s = (None, s\<lparr>resultsContainer := resultsContainer s @ cs\<rparr>))"
proof (induction ps arbitrary: k)
  case Nil
  show ?case by simp
next
  case (Cons p ps)
  obtain c where c: "createProfessorCard nts p (k + 1) = Inr c"
    using createProfessorCard_total by blast
  from Cons.IH [of "k + 1"] obtain cs where
    len: "length cs = length ps" and
    each: "\<forall>i<length ps. createProfessorCard nts (ps ! i) (k + 1 + i + 1) = Inr (cs ! i)" and
    run: "\<forall>s. appendCards nts ps (k + 1) s =
            (None, s\<lparr>resultsContainer := resultsContainer s @ cs\<rparr>)"
    by blast
  have "\<forall>i<length (p # ps).
          createProfessorCard nts ((p # ps) ! i) (k + i + 1) = Inr ((c # cs) ! i)"
  proof (intro allI impI)
    fix i assume "i < length (p # ps)"
    then show "createProfessorCard nts ((p # ps) ! i) (k + i + 1) = Inr ((c # cs) ! i)"
      using c each by (cases i) (simp_all add: add.commute add.left_commute)
  qed
  moreover have "\<forall>s. appendCards nts (p # ps) k s =
      (None, s\<lparr>resultsContainer := resultsContainer s @ (c # cs)\<rparr>)"
    using c run by simp
  ultimately show ?case
    using len by (intro exI [of _ "c # cs"]) simp
qed

lemma displayResults_nonempty:
  assumes "results data = Val ps" and "ps \<noteq> []"
  shows "\<exists>cs. length cs = length ps \<and>
     (\<forall>i<length ps. createProfessorCard nts (ps ! i) (i + 1) = Inr (cs ! i)) \<and>
     (\<forall>s. displayResults nts data s =
        (None, s\<lparr>resultsInfo_textContent := resultsInfo_text data, resultsContainer := cs,
                 resultsSection_hidden := False\<rparr>))"
proof -
  from appendCards_total [of ps nts 0] obtain cs where
    len: "length cs = length ps" and
    each: "\<forall>i<length ps. createProfessorCard nts (ps ! i) (0 + i + 1) = Inr (cs ! i)" and
    run: "\<forall>s. appendCards nts ps 0 s = (None, s\<lparr>resultsContainer := resultsContainer s @ cs\<rparr>)"
    by blast
  have "\<forall>s. displayResults nts data s =
        (None, s\<lparr>resultsInfo_textContent := resultsInfo_text data, resultsContainer := cs,
                 resultsSection_hidden := False\<rparr>)"
    using assms run by (simp add: displayResults_def showResults_def)
  then show ?thesis
    using len each by (intro exI [of _ cs]) simp
qed

lemma displayResults_empty:
  assumes "\<not> (\<exists>ps. results data = Val ps \<and> ps \<noteq> [])"
  shows \<open>displayResults nts data s =
     (None, showError (lit ''No advisors found for your query. Try different keywords.'') s)\<close>
  using assms by (cases "results data") (auto simp add: displayResults_def)

lemma displayResults_cases:
  \<open>(\<exists>cs. \<forall>s. displayResults nts data s =
        (None, s\<lparr>resultsInfo_textContent := resultsInfo_text data, resultsContainer := cs,
                 resultsSection_hidden := False\<rparr>)) \<or>
   (\<forall>s. displayResults nts data s =
        (None, showError (lit ''No advisors found for your query. Try different keywords.'') s))\<close>
proof (cases "\<exists>ps. results data = Val ps \<and> ps \<noteq> []")
  case True
  then obtain ps where "results data = Val ps" "ps \<noteq> []" by blast
  from displayResults_nonempty [OF this, of nts] show ?thesis by blast
next
  case False
  then show ?thesis
    using displayResults_empty by blast
qed

lemma displayResults_never_throws: "fst (displayResults nts data s) = None"
  using displayResults_cases [of nts data] by auto

section \<open>The heading of a card\<close>

lemma sublist_skip: "sublist h ys \<Longrightarrow> sublist h (x @ ys)"
  by (metis append.assoc sublist_def)

lemma heading_here:
  \<open>sublist (lit ''<h3>'' @ n @ lit ''. '' @ nm @ lit ''</h3>'')
     (lit ''                    <h3>'' @ n @ lit ''. '' @ nm @ lit ''</h3>\<newline>'' @ rest)\<close>
proof -
  have \<open>lit ''                    <h3>'' @ n @ lit ''. '' @ nm @ lit ''</h3>\<newline>'' @ rest =
        lit ''                    '' @ (lit ''<h3>'' @ n @ lit ''. '' @ nm @ lit ''</h3>'') @
          (lit ''\<newline>'' @ rest)\<close>
    by (simp add: lit_def)
  then show ?thesis
    by (simp only: sublist_appendI)
qed

lemma card_heading:
  assumes "createProfessorCard nts professor rank = Inr element"
  shows \<open>sublist (lit ''<h3>'' @ int_str (int rank) @ lit ''. '' @ name professor @ lit ''</h3>'')
           (innerHTML element)\<close>
proof -
  obtain h where h: "card_interests professor = Inr h"
    using card_interests_total by blast
  show ?thesis
    using assms unfolding createProfessorCard_def h
    apply (clarsimp simp del: sublist_appendI sublist_append_leftI sublist_append_rightI)
    apply (intro heading_here sublist_skip)
    done
qed

section \<open>The gauge\<close>

text \<open>
  With one decimal, a percentage between 0 and 100 prints as one of 0.0, 0.1, ..., 100.0.
\<close>

lemma toFixed_tenths:
  assumes "0 \<le> x" and "x \<le> 100"
  shows "\<exists>n\<le>1000. toFixed x 1 = toFixed (real n / 10) 1"
proof -
  define n where "n = nat \<lfloor>\<bar>x\<bar> * 10 ^ 1 + 1 / 2\<rfloor>"
  have "\<lfloor>x * 10 + 1 / 2\<rfloor> \<le> 1000"
    using assms by linarith
  then have le: "n \<le> 1000"
    using assms by (simp add: n_def nat_le_iff)
  have "nat \<lfloor>\<bar>real n / 10\<bar> * 10 ^ 1 + 1 / 2\<rfloor> = n"
    by simp
  then have "toFixed (real n / 10) 1 = toFixed x 1"
    using assms unfolding toFixed_def n_def [symmetric] by (simp add: Let_def)
  with le show ?thesis by auto
qed

lemma gauge_bounds:
  assumes "0 \<le> score" and "score \<le> 1"
  shows "0 \<le> dashOffset score \<and> dashOffset score \<le> dashArray \<and>
         (\<exists>n\<le>1000. scorePercent score = toFixed (real n / 10) 1)"
proof -
  have c: "0 \<le> circumference"
    by (simp add: circumference_def Math_PI_def radius_def)
  have "0 \<le> circumference * (1 - score)"
    using c assms by simp
  moreover have "circumference * (1 - score) \<le> circumference * 1"
    using c assms by (intro mult_left_mono) simp_all
  moreover have "\<exists>n\<le>1000. toFixed (score * 100) 1 = toFixed (real n / 10) 1"
    using assms by (intro toFixed_tenths) simp_all
  ultimately show ?thesis
    by (simp add: dashOffset_def dashArray_def scorePercent_def)
qed

section \<open>The BM25 cards and the fields they do not read\<close>

lemma bm25_card_update:
  "bm25_card (p\<lparr>recency_weight := r, activity_bonus := a, citation_impact := c\<rparr>) = bm25_card p"
  by (cases "top_publications p")
    (simp_all add: bm25_card_def Let_def split del: if_split cong: if_cong)

lemma bm25_card_unread:
  "differ_only_in_unread p q \<Longrightarrow> bm25_card p = bm25_card q"
proof -
  assume "differ_only_in_unread p q"
  then have q: "q = p\<lparr>recency_weight := recency_weight q, activity_bonus := activity_bonus q,
           citation_impact := citation_impact q\<rparr>"
    by (simp add: differ_only_in_unread_def)
  show ?thesis
    by (subst q) (simp only: bm25_card_update)
qed

lemma bm25_appendCards_unread:
  "list_all2 differ_only_in_unread ps qs \<Longrightarrow> bm25_appendCards ps s = bm25_appendCards qs s"
proof (induction ps qs arbitrary: s rule: list_all2_induct)
  case Nil
  show ?case by simp
next
  case (Cons p ps q qs)
  then show ?case
    by (simp add: bm25_card_unread [of p q] split: sum.splits)
qed

section \<open>C1: an empty query\<close>

text \<open>
  C1 as stated fails on the BM25 page: with a blank query \<^verbatim>\<open>performSearch\<close> returns at
  once, so no request is sent, but nothing tells the user either: the page is unchanged
  and the error banner stays hidden.
\<close>

theorem bm25_empty_query_silent_counterexample:
  \<open>trim (searchInput_value blank_page) = [] \<and>
   bm25_performSearch offline blank_page = (blank_page, []) \<and>
   errorMessage_hidden (fst (bm25_performSearch offline blank_page))\<close>
  by (simp add: bm25_performSearch_def blank_page_def trim_blank)

text \<open>
  C1, amended: for every query that is empty once trimmed, neither page sends a request.
  The semantic page shows the message \<^verbatim>\<open>Please enter a research query\<close> in the error
  banner and changes nothing else; the BM25 page returns silently and leaves the page as
  it was.
\<close>

theorem empty_query_rejected:
  assumes "trim (searchInput_value s) = []"
  shows \<open>snd (performSearch number_toString fetch s) = [] \<and>
         fst (performSearch number_toString fetch s) =
           s\<lparr>errorMessage_textContent := lit ''Please enter a research query'',
             errorMessage_hidden := False\<rparr> \<and>
         bm25_performSearch fetch s = (s, [])\<close>
  using assms by (simp add: performSearch_def bm25_performSearch_def showError_def)

theorem empty_query_rejected_witness:
  \<open>snd (performSearch sample_number_toString offline blank_page) = [] \<and>
   errorMessage_textContent (fst (performSearch sample_number_toString offline blank_page)) =
     lit ''Please enter a research query'' \<and>
   \<not> errorMessage_hidden (fst (performSearch sample_number_toString offline blank_page)) \<and>
   snd (bm25_performSearch offline blank_page) = []\<close>
  using empty_query_rejected [of blank_page sample_number_toString offline]
  by (simp add: blank_page_def trim_blank)

section \<open>C2: the top-k of the request\<close>

text \<open>
  C2 as stated fails on the semantic page: nothing clamps \<^verbatim>\<open>parseInt(topKInput.value)\<close>,
  so the input \<^verbatim>\<open>50\<close> is sent as \<^verbatim>\<open>top_k: 50\<close>.
\<close>

theorem top_k_not_clamped_counterexample:
  \<open>map body_top_k (snd (performSearch sample_number_toString offline robotics_page)) = [Val 50]\<close>
  by (simp add: performSearch_def robotics_page_def trim_robotics topK_of_def parseInt_50
      search_request_def offline_def Let_def showLoading_def hideError_def hideResults_def)

text \<open>
  C2, amended: for every value of the top-k input and every query that is not blank, the
  semantic page sends exactly one request. Its \<^verbatim>\<open>top_k\<close> is the Number that
  \<^verbatim>\<open>parseInt\<close> reads from the input (the integer written, rounded to the nearest double
  beyond \<open>2^53\<close>), or 10 when that is \<^verbatim>\<open>NaN\<close> or 0; an infinite Number (about 309
  digits or more) is sent as \<^verbatim>\<open>top_k: null\<close>. A value in \<open>[1,20]\<close> is sent as it is,
  and so is a finite value outside (there is no clamp); no value is rejected as an error.
  The BM25 page always sends \<^verbatim>\<open>top_k: 20\<close>.
\<close>

theorem top_k_carried:
  assumes "trim (searchInput_value s) \<noteq> []"
  shows \<open>map body_top_k (snd (performSearch number_toString fetch s)) =
           [case parseInt (topKInput_value s) of
              NaN \<Rightarrow> Val 10
            | Finite n \<Rightarrow> Val (if n = 0 then 10 else n)
            | Infinity \<Rightarrow> Null
            | NegInfinity \<Rightarrow> Null] \<and>
         map body_top_k (snd (bm25_performSearch fetch s)) = [Val 20]\<close>
  using assms
  by (simp add: performSearch_def bm25_performSearch_def Let_def showLoading_def hideError_def
      hideResults_def topK_of_def search_request_def bm25_search_request_def
      split: prod.splits number.splits)

theorem top_k_carried_witness:
  \<open>map body_top_k (snd (performSearch sample_number_toString offline robotics_page)) = [Val 50] \<and>
   map body_top_k (snd (bm25_performSearch offline robotics_page)) = [Val 20] \<and>
   map body_top_k (snd (performSearch sample_number_toString offline rounding_page)) =
     [Val 9007199254740992] \<and>
   map body_top_k (snd (performSearch sample_number_toString offline overflow_page)) = [Null]\<close>
  using top_k_carried [of robotics_page sample_number_toString offline]
    top_k_carried [of rounding_page sample_number_toString offline]
    top_k_carried [of overflow_page sample_number_toString offline]
  by (simp add: robotics_page_def rounding_page_def overflow_page_def trim_robotics parseInt_50
      parseInt_rounds parseInt_overflows)

section \<open>C3: an empty result list\<close>

text \<open>
  C3 as stated fails: on an empty \<^verbatim>\<open>results\<close> list \<^verbatim>\<open>displayResults\<close> calls
  \<^verbatim>\<open>showError\<close>, so the error banner, hidden before, is shown with a message.
\<close>

theorem empty_results_counterexample:
  \<open>results no_hits = Val [] \<and> errorMessage_hidden robotics_page \<and>
   \<not> errorMessage_hidden (snd (displayResults sample_number_toString no_hits robotics_page)) \<and>
   errorMessage_textContent (snd (displayResults sample_number_toString no_hits robotics_page)) =
     lit ''No advisors found for your query. Try different keywords.''\<close>
  by (simp add: displayResults_def no_hits_def robotics_page_def showError_def)

text \<open>
  C3, amended: for every response whose \<^verbatim>\<open>results\<close> is empty (or absent, or null),
  \<^verbatim>\<open>displayResults\<close> throws nothing and builds no card; it reports the outcome in the
  error banner, with the message \<^verbatim>\<open>No advisors found for your query. Try different keywords.\<close>
  on the semantic page and \<^verbatim>\<open>No matches found.\<close> on the BM25 page, and leaves the rest
  of the page as it was. (\<^verbatim>\<open>total_results\<close> is not looked at.)
\<close>

theorem empty_results_banner:
  assumes "results data = Val [] \<or> missing (results data)"
  shows \<open>displayResults number_toString data s =
           (None, showError (lit ''No advisors found for your query. Try different keywords.'') s) \<and>
         bm25_displayResults data s = (None, showError (lit ''No matches found.'') s)\<close>
  using assms by (cases "results data") (auto simp add: displayResults_def bm25_displayResults_def)

theorem empty_results_banner_witness:
  \<open>displayResults sample_number_toString no_hits stale_page =
     (None, showError (lit ''No advisors found for your query. Try different keywords.'') stale_page) \<and>
   bm25_displayResults no_hits stale_page = (None, showError (lit ''No matches found.'') stale_page) \<and>
   resultsContainer (snd (bm25_displayResults no_hits stale_page)) = resultsContainer stale_page\<close>
  using empty_results_banner [of no_hits sample_number_toString stale_page]
  by (simp add: no_hits_def showError_def)

section \<open>C4: lexical mode\<close>

text \<open>
  C4: in lexical mode the composed score is \<^verbatim>\<open>avg_similarity\<close> exactly, and neither the
  composer nor the BM25 page reads \<^verbatim>\<open>recency_weight\<close>, \<^verbatim>\<open>activity_bonus\<close> or
  \<^verbatim>\<open>citation_impact\<close>: two result objects that differ only in these fields get the same
  score and the same card, and two result lists that differ only so leave the same page
  (and the same thrown value, if any).
\<close>

theorem lexical_mode_isolation:
  "compose w p Lexical = avg_similarity p \<and>
   (differ_only_in_unread p q \<longrightarrow>
      compose w p Lexical = compose w q Lexical \<and> bm25_card p = bm25_card q) \<and>
   (list_all2 differ_only_in_unread ps qs \<longrightarrow>
      bm25_displayResults (data\<lparr>results := Val ps\<rparr>) s =
      bm25_displayResults (data\<lparr>results := Val qs\<rparr>) s)"
proof -
  have "compose w p Lexical = compose w q Lexical" if "differ_only_in_unread p q"
  proof -
    from that have q: "q = p\<lparr>recency_weight := recency_weight q,
        activity_bonus := activity_bonus q, citation_impact := citation_impact q\<rparr>"
      by (simp add: differ_only_in_unread_def)
    show ?thesis
      by (subst q) (simp add: compose_def)
  qed
  moreover have "bm25_displayResults (data\<lparr>results := Val ps\<rparr>) s =
      bm25_displayResults (data\<lparr>results := Val qs\<rparr>) s"
    if "list_all2 differ_only_in_unread ps qs"
  proof -
    have "length ps = length qs"
      using that by (rule list_all2_lengthD)
    then show ?thesis
      using bm25_appendCards_unread [OF that]
      by (simp add: bm25_displayResults_def bm25_resultsInfo_text_def)
  qed
  ultimately show ?thesis
    using bm25_card_unread by (simp add: compose_def)
qed

theorem lexical_mode_isolation_witness:
  "compose default_weights bare_professor Lexical = 0.7 \<and>
   compose default_weights other_scores Lexical = 0.7 \<and>
   bm25_card bare_professor = bm25_card other_scores \<and>
   bm25_displayResults (two_hits\<lparr>results := Val [bare_professor, second_professor]\<rparr>) robotics_page =
   bm25_displayResults (two_hits\<lparr>results := Val [other_scores, second_professor]\<rparr>) robotics_page"
proof -
  have d: "differ_only_in_unread bare_professor other_scores"
    by (simp add: differ_only_in_unread_def other_scores_def)
  have s: "differ_only_in_unread second_professor second_professor"
    by (simp add: differ_only_in_unread_def)
  have a: "avg_similarity bare_professor = 0.7"
    by (simp add: bare_professor_def)
  show ?thesis
    using d s a
      lexical_mode_isolation [of default_weights bare_professor other_scores
        "[bare_professor, second_professor]" "[other_scores, second_professor]" two_hits
        robotics_page]
    by simp
qed

section \<open>C5: missing optional fields\<close>

text \<open>What each hole of the templates holds when its field is absent or null.\<close>

lemma missing_not_truthy:
  "missing f \<Longrightarrow> \<not> truthy_int f" "missing g \<Longrightarrow> \<not> truthy_str g"
  by (cases f; simp) (cases g; simp)

lemma holes_of_missing_fields:
  \<open>missing (year publication) \<Longrightarrow> year_text publication = lit ''N/A''\<close>
  \<open>missing (citations publication) \<Longrightarrow> citations_text publication = lit ''0''\<close>
  \<open>missing (venue publication) \<Longrightarrow> publication_venue publication = []\<close>
  \<open>missing (url publication) \<Longrightarrow> publication_title publication = title publication\<close>
  \<open>missing (image_url professor) \<Longrightarrow> card_image professor = []\<close>
  \<open>missing (profile_url professor) \<Longrightarrow> card_profile professor = []\<close>
  by (simp_all add: missing_not_truthy year_text_def citations_text_def publication_venue_def
      publication_title_def card_image_def card_profile_def int_str_0)

text \<open>
  The HTML of a publication. Without a link the title stands bare in its \<^verbatim>\<open>div\<close>;
  without a year the first \<^verbatim>\<open>span\<close> of the meta line reads \<^verbatim>\<open>N/A\<close>; without
  citations the span after the first bullet reads \<^verbatim>\<open>0 citations\<close>; without a venue the
  citations are followed at once by the last bullet and the similarity.
\<close>

lemma publication_without_url:
  assumes "missing (url publication)"
  shows \<open>sublist
           (lit ''            <div class="publication-title">\<newline>'' @
            lit ''                '' @
            title publication @
            lit ''\<newline>'' @
            lit ''            </div>\<newline>'')
           (createPublicationHTML publication)\<close>
proof -
  have here: \<open>sublist
           (lit ''            <div class="publication-title">\<newline>'' @
            lit ''                '' @
            title publication @
            lit ''\<newline>'' @
            lit ''            </div>\<newline>'')
           ((lit ''            <div class="publication-title">\<newline>'' @
            lit ''                '' @
            title publication @
            lit ''\<newline>'' @
            lit ''            </div>\<newline>'') @ rest)\<close> for rest
    by (rule sublist_append_rightI)
  show ?thesis
    unfolding createPublicationHTML_def holes_of_missing_fields(4) [OF assms]
    apply (simp only: concat.simps append_Nil append_Nil2)
    apply (intro here [unfolded append_assoc] sublist_skip)
    done
qed

lemma publication_without_year:
  assumes "missing (year publication)"
  shows \<open>sublist
           (lit ''            <div class="publication-meta">\<newline>'' @
            lit ''                <span>'' @
            lit ''N/A'' @
            lit ''</span>\<newline>'')
           (createPublicationHTML publication)\<close>
proof -
  have here: \<open>sublist
           (lit ''            <div class="publication-meta">\<newline>'' @
            lit ''                <span>'' @
            lit ''N/A'' @
            lit ''</span>\<newline>'')
           ((lit ''            <div class="publication-meta">\<newline>'' @
            lit ''                <span>'' @
            lit ''N/A'' @
            lit ''</span>\<newline>'') @ rest)\<close> for rest
    by (rule sublist_append_rightI)
  show ?thesis
    unfolding createPublicationHTML_def holes_of_missing_fields(1) [OF assms]
    apply (simp only: concat.simps append_Nil append_Nil2)
    apply (intro here [unfolded append_assoc] sublist_skip)
    done
qed

lemma publication_without_citations:
  assumes "missing (citations publication)"
  shows \<open>sublist
           (lit ''                <span>'' @
            [8226] @
            lit ''</span>\<newline>'' @
            lit ''                <span>'' @
            lit ''0'' @
            lit '' citations</span>\<newline>'')
           (createPublicationHTML publication)\<close>
proof -
  have here: \<open>sublist
           (lit ''                <span>'' @
            [8226] @
            lit ''</span>\<newline>'' @
            lit ''                <span>'' @
            lit ''0'' @
            lit '' citations</span>\<newline>'')
           ((lit ''                <span>'' @
            [8226] @
            lit ''</span>\<newline>'' @
            lit ''                <span>'' @
            lit ''0'' @
            lit '' citations</span>\<newline>'') @ rest)\<close> for rest
    by (rule sublist_append_rightI)
  show ?thesis
    unfolding createPublicationHTML_def holes_of_missing_fields(2) [OF assms]
    apply (simp only: concat.simps append_Nil append_Nil2)
    apply (intro here [unfolded append_assoc] sublist_skip)
    done
qed

lemma publication_without_venue:
  assumes "missing (venue publication)"
  shows \<open>sublist
           (lit '' citations</span>\<newline>'' @
            lit ''                '' @
            lit ''\<newline>'' @
            lit ''                <span>'' @
            [8226] @
            lit ''</span>\<newline>'' @
            lit ''                <span class="similarity-score">Paper Similarity: '')
           (createPublicationHTML publication)\<close>
proof -
  have here: \<open>sublist
           (lit '' citations</span>\<newline>'' @
            lit ''                '' @
            lit ''\<newline>'' @
            lit ''                <span>'' @
            [8226] @
            lit ''</span>\<newline>'' @
            lit ''                <span class="similarity-score">Paper Similarity: '')
           ((lit '' citations</span>\<newline>'' @
            lit ''                '' @
            lit ''\<newline>'' @
            lit ''                <span>'' @
            [8226] @
            lit ''</span>\<newline>'' @
            lit ''                <span class="similarity-score">Paper Similarity: '') @ rest)\<close> for rest
    by (rule sublist_append_rightI)
  show ?thesis
    unfolding createPublicationHTML_def holes_of_missing_fields(3) [OF assms]
    apply (simp only: concat.simps append_Nil append_Nil2)
    apply (intro here [unfolded append_assoc] sublist_skip)
    done
qed

text \<open>With all four missing, this is the whole HTML of the publication.\<close>

lemma publication_bare:
  assumes "missing (url publication)" and "missing (year publication)"
    and "missing (citations publication)" and "missing (venue publication)"
  shows \<open>createPublicationHTML publication =
           lit ''\<newline>'' @
            lit ''        <div class="publication-item '' @
            borderClass (similarity publication) @
            lit ''">\<newline>'' @
            lit ''            <div class="publication-title">\<newline>'' @
            lit ''                '' @
            title publication @
            lit ''\<newline>'' @
            lit ''            </div>\<newline>'' @
            lit ''            <div class="publication-meta">\<newline>'' @
            lit ''                <span>'' @
            lit ''N/A'' @
            lit ''</span>\<newline>'' @
            lit ''                <span>'' @
            [8226] @
            lit ''</span>\<newline>'' @
            lit ''                <span>'' @
            lit ''0'' @
            lit '' citations</span>\<newline>'' @
            lit ''                '' @
            lit ''\<newline>'' @
            lit ''                <span>'' @
            [8226] @
            lit ''</span>\<newline>'' @
            lit ''                <span class="similarity-score">Paper Similarity: '' @
            toFixed (similarity publication * 100) 1 @
            lit ''%</span>\<newline>'' @
            lit ''            </div>\<newline>'' @
            lit ''        </div>\<newline>'' @
            lit ''    ''\<close>
  unfolding createPublicationHTML_def holes_of_missing_fields(1) [OF assms(2)]
    holes_of_missing_fields(2) [OF assms(3)] holes_of_missing_fields(3) [OF assms(4)]
    holes_of_missing_fields(4) [OF assms(1)]
  by (simp only: concat.simps append_Nil append_Nil2)

text \<open>
  The card of a professor. Without an image the header content goes straight to the
  professor info; without a profile link the details end after the row of matching
  papers; and the publications, when there are any, are all there, each as
  \<^verbatim>\<open>createPublicationHTML\<close> renders it, in order.
\<close>

lemma card_without_image:
  assumes "createProfessorCard nts professor rank = Inr element"
    and "missing (image_url professor)"
  shows \<open>sublist
           (lit ''            <div class="professor-header-content">\<newline>'' @
            lit ''                '' @
            lit ''\<newline>'' @
            lit ''                <div class="professor-info">\<newline>'')
           (innerHTML element)\<close>
proof -
  obtain h where h: "card_interests professor = Inr h"
    using card_interests_total by blast
  have here: \<open>sublist
           (lit ''            <div class="professor-header-content">\<newline>'' @
            lit ''                '' @
            lit ''\<newline>'' @
            lit ''                <div class="professor-info">\<newline>'')
           ((lit ''            <div class="professor-header-content">\<newline>'' @
            lit ''                '' @
            lit ''\<newline>'' @
            lit ''                <div class="professor-info">\<newline>'') @ rest)\<close> for rest
    by (rule sublist_append_rightI)
  have e: "innerHTML element = innerHTML (projr (createProfessorCard nts professor rank))"
    using assms(1) by simp
  show ?thesis
    unfolding e createProfessorCard_def h holes_of_missing_fields(5) [OF assms(2)]
    apply (simp only: sum.case sum.sel card.simps concat.simps append_Nil append_Nil2)
    apply (intro here [unfolded append_assoc] sublist_skip)
    done
qed

lemma card_without_profile:
  assumes "createProfessorCard nts professor rank = Inr element"
    and "missing (profile_url professor)"
  shows \<open>sublist
           (lit ''                <span class="detail-label">Matching Papers:</span>\<newline>'' @
            lit ''                <span class="detail-value">'' @
            int_str (num_matching_papers professor) @
            lit ''</span>\<newline>'' @
            lit ''            </div>\<newline>'' @
            lit ''            \<newline>'' @
            lit ''            '' @
            lit ''\<newline>'' @
            lit ''        </div>\<newline>'')
           (innerHTML element)\<close>
proof -
  obtain h where h: "card_interests professor = Inr h"
    using card_interests_total by blast
  have here: \<open>sublist
           (lit ''                <span class="detail-label">Matching Papers:</span>\<newline>'' @
            lit ''                <span class="detail-value">'' @
            int_str (num_matching_papers professor) @
            lit ''</span>\<newline>'' @
            lit ''            </div>\<newline>'' @
            lit ''            \<newline>'' @
            lit ''            '' @
            lit ''\<newline>'' @
            lit ''        </div>\<newline>'')
           ((lit ''                <span class="detail-label">Matching Papers:</span>\<newline>'' @
            lit ''                <span class="detail-value">'' @
            int_str (num_matching_papers professor) @
            lit ''</span>\<newline>'' @
            lit ''            </div>\<newline>'' @
            lit ''            \<newline>'' @
            lit ''            '' @
            lit ''\<newline>'' @
            lit ''        </div>\<newline>'') @ rest)\<close> for rest
    by (rule sublist_append_rightI)
  have e: "innerHTML element = innerHTML (projr (createProfessorCard nts professor rank))"
    using assms(1) by simp
  show ?thesis
    unfolding e createProfessorCard_def h holes_of_missing_fields(6) [OF assms(2)]
    apply (simp only: sum.case sum.sel card.simps concat.simps append_Nil append_Nil2)
    apply (intro here [unfolded append_assoc] sublist_skip)
    done
qed

lemma card_with_publications:
  assumes "createProfessorCard nts professor rank = Inr element"
    and "top_publications professor = Val pubs" and "pubs \<noteq> []"
  shows \<open>sublist
           (lit ''                <h4>Top Matching Publications</h4>\<newline>'' @
            lit ''                '' @
            concat (map createPublicationHTML pubs) @
            lit ''\<newline>'' @
            lit ''            </div>\<newline>'')
           (innerHTML element)\<close>
proof -
  obtain h where h: "card_interests professor = Inr h"
    using card_interests_total by blast
  have here: \<open>sublist
           (lit ''                <h4>Top Matching Publications</h4>\<newline>'' @
            lit ''                '' @
            concat (map createPublicationHTML pubs) @
            lit ''\<newline>'' @
            lit ''            </div>\<newline>'')
           ((lit ''                <h4>Top Matching Publications</h4>\<newline>'' @
            lit ''                '' @
            concat (map createPublicationHTML pubs) @
            lit ''\<newline>'' @
            lit ''            </div>\<newline>'') @ rest)\<close> for rest
    by (rule sublist_append_rightI)
  have e: "innerHTML element = innerHTML (projr (createProfessorCard nts professor rank))"
    using assms(1) by simp
  have p: "0 < length pubs"
    using assms(3) by simp
  show ?thesis
    unfolding e createProfessorCard_def h card_publications_def assms(2)
    apply (simp only: sum.case sum.sel card.simps field.case p if_True concat.simps append_Nil
        append_Nil2 append_assoc)
    apply (intro here [unfolded append_assoc] sublist_skip)
    done
qed

text \<open>
  For comparison, a field that is there (and truthy) is rendered in the same place: the
  year and the citations as numbers, the venue after a bullet of its own, the link around
  the title, the image before the professor info, the profile row after the matching
  papers.
\<close>

lemma publication_with_year:
  assumes "year publication = Val y"
    and "y \<noteq> 0"
  shows \<open>sublist
          (lit ''            <div class="publication-meta">\<newline>'' @
           lit ''                <span>'' @
           int_str y @
           lit ''</span>\<newline>'')
          (createPublicationHTML publication)\<close>
proof -
  have here: \<open>sublist
          (lit ''            <div class="publication-meta">\<newline>'' @
           lit ''                <span>'' @
           int_str y @
           lit ''</span>\<newline>'')
          ((lit ''            <div class="publication-meta">\<newline>'' @
           lit ''                <span>'' @
           int_str y @
           lit ''</span>\<newline>'') @ rest)\<close> for rest
    by (rule sublist_append_rightI)
  show ?thesis
    unfolding createPublicationHTML_def year_text_def assms(1)
    apply (simp only: truthy_int.simps tmpl_int.simps assms(2)
        if_True not_False_eq_True concat.simps append_Nil append_Nil2 append_assoc)
    apply (intro here [unfolded append_assoc] sublist_skip)
    done
qed

lemma publication_with_citations:
  assumes "citations publication = Val c"
    and "c \<noteq> 0"
  shows \<open>sublist
          (lit ''                <span>'' @
           [8226] @
           lit ''</span>\<newline>'' @
           lit ''                <span>'' @
           int_str c @
           lit '' citations</span>\<newline>'')
          (createPublicationHTML publication)\<close>
proof -
  have here: \<open>sublist
          (lit ''                <span>'' @
           [8226] @
           lit ''</span>\<newline>'' @
           lit ''                <span>'' @
           int_str c @
           lit '' citations</span>\<newline>'')
          ((lit ''                <span>'' @
           [8226] @
           lit ''</span>\<newline>'' @
           lit ''                <span>'' @
           int_str c @
           lit '' citations</span>\<newline>'') @ rest)\<close> for rest
    by (rule sublist_append_rightI)
  show ?thesis
    unfolding createPublicationHTML_def citations_text_def assms(1)
    apply (simp only: truthy_int.simps tmpl_int.simps assms(2)
        if_True not_False_eq_True concat.simps append_Nil append_Nil2 append_assoc)
    apply (intro here [unfolded append_assoc] sublist_skip)
    done
qed

lemma publication_with_venue:
  assumes "venue publication = Val v"
    and "v \<noteq> []"
  shows \<open>sublist
          (lit '' citations</span>\<newline>'' @
           lit ''                '' @
           lit ''\<newline>'' @
           lit ''                    <span>'' @
           [8226] @
           lit ''</span>\<newline>'' @
           lit ''                    <span>'' @
           v @
           lit ''</span>\<newline>'' @
           lit ''                '' @
           lit ''\<newline>'')
          (createPublicationHTML publication)\<close>
proof -
  have here: \<open>sublist
          (lit '' citations</span>\<newline>'' @
           lit ''                '' @
           lit ''\<newline>'' @
           lit ''                    <span>'' @
           [8226] @
           lit ''</span>\<newline>'' @
           lit ''                    <span>'' @
           v @
           lit ''</span>\<newline>'' @
           lit ''                '' @
           lit ''\<newline>'')
          ((lit '' citations</span>\<newline>'' @
           lit ''                '' @
           lit ''\<newline>'' @
           lit ''                    <span>'' @
           [8226] @
           lit ''</span>\<newline>'' @
           lit ''                    <span>'' @
           v @
           lit ''</span>\<newline>'' @
           lit ''                '' @
           lit ''\<newline>'') @ rest)\<close> for rest
    by (rule sublist_append_rightI)
  show ?thesis
    unfolding createPublicationHTML_def publication_venue_def assms(1)
    apply (simp only: truthy_str.simps tmpl_str.simps assms(2)
        if_True not_False_eq_True concat.simps append_Nil append_Nil2 append_assoc)
    apply (intro here [unfolded append_assoc] sublist_skip)
    done
qed

lemma publication_with_url:
  assumes "url publication = Val u"
    and "u \<noteq> []"
  shows \<open>sublist
          (lit ''            <div class="publication-title">\<newline>'' @
           lit ''                '' @
           lit ''<a href="'' @
           u @
           lit ''" target="_blank" class="publication-link">'' @
           title publication @
           lit ''</a>'' @
           lit ''\<newline>'' @
           lit ''            </div>\<newline>'')
          (createPublicationHTML publication)\<close>
proof -
  have here: \<open>sublist
          (lit ''            <div class="publication-title">\<newline>'' @
           lit ''                '' @
           lit ''<a href="'' @
           u @
           lit ''" target="_blank" class="publication-link">'' @
           title publication @
           lit ''</a>'' @
           lit ''\<newline>'' @
           lit ''            </div>\<newline>'')
          ((lit ''            <div class="publication-title">\<newline>'' @
           lit ''                '' @
           lit ''<a href="'' @
           u @
           lit ''" target="_blank" class="publication-link">'' @
           title publication @
           lit ''</a>'' @
           lit ''\<newline>'' @
           lit ''            </div>\<newline>'') @ rest)\<close> for rest
    by (rule sublist_append_rightI)
  show ?thesis
    unfolding createPublicationHTML_def publication_title_def assms(1)
    apply (simp only: truthy_str.simps tmpl_str.simps assms(2)
        if_True not_False_eq_True concat.simps append_Nil append_Nil2 append_assoc)
    apply (intro here [unfolded append_assoc] sublist_skip)
    done
qed

lemma card_with_image:
  assumes "createProfessorCard nts professor rank = Inr element"
    and "image_url professor = Val u"
    and "u \<noteq> []"
  shows \<open>sublist
          (lit ''            <div class="professor-header-content">\<newline>'' @
           lit ''                '' @
           lit ''\<newline>'' @
           lit ''                    <img src="'' @
           u @
           lit ''" alt="'' @
           name professor @
           lit ''" class="professor-image">\<newline>'' @
           lit ''                '' @
           lit ''\<newline>'' @
           lit ''                <div class="professor-info">\<newline>'')
          (innerHTML element)\<close>
proof -
  obtain h where h: "card_interests professor = Inr h"
    using card_interests_total by blast
  have e: "innerHTML element = innerHTML (projr (createProfessorCard nts professor rank))"
    using assms(1) by simp
  have here: \<open>sublist
          (lit ''            <div class="professor-header-content">\<newline>'' @
           lit ''                '' @
           lit ''\<newline>'' @
           lit ''                    <img src="'' @
           u @
           lit ''" alt="'' @
           name professor @
           lit ''" class="professor-image">\<newline>'' @
           lit ''                '' @
           lit ''\<newline>'' @
           lit ''                <div class="professor-info">\<newline>'')
          ((lit ''            <div class="professor-header-content">\<newline>'' @
           lit ''                '' @
           lit ''\<newline>'' @
           lit ''                    <img src="'' @
           u @
           lit ''" alt="'' @
           name professor @
           lit ''" class="professor-image">\<newline>'' @
           lit ''                '' @
           lit ''\<newline>'' @
           lit ''                <div class="professor-info">\<newline>'') @ rest)\<close> for rest
    by (rule sublist_append_rightI)
  show ?thesis
    unfolding e createProfessorCard_def h card_image_def assms(2)
    apply (simp only: sum.case sum.sel card.simps truthy_str.simps tmpl_str.simps assms(3)
        if_True not_False_eq_True concat.simps append_Nil append_Nil2 append_assoc)
    apply (intro here [unfolded append_assoc] sublist_skip)
    done
qed

lemma card_with_profile:
  assumes "createProfessorCard nts professor rank = Inr element"
    and "profile_url professor = Val u"
    and "u \<noteq> []"
  shows \<open>sublist
          (lit ''                <span class="detail-label">Matching Papers:</span>\<newline>'' @
           lit ''                <span class="detail-value">'' @
           int_str (num_matching_papers professor) @
           lit ''</span>\<newline>'' @
           lit ''            </div>\<newline>'' @
           lit ''            \<newline>'' @
           lit ''            '' @
           lit ''\<newline>'' @
           lit ''                <div class="detail-row">\<newline>'' @
           lit ''                    <span class="detail-label">Profile:</span>\<newline>'' @
           lit ''                    <span class="detail-value">\<newline>'' @
           lit ''                        <a href="'' @
           u @
           lit ''" target="_blank">View Faculty Page '' @
           [8594] @
           lit ''</a>\<newline>'' @
           lit ''                    </span>\<newline>'' @
           lit ''                </div>\<newline>'' @
           lit ''            '' @
           lit ''\<newline>'' @
           lit ''        </div>\<newline>'')
          (innerHTML element)\<close>
proof -
  obtain h where h: "card_interests professor = Inr h"
    using card_interests_total by blast
  have e: "innerHTML element = innerHTML (projr (createProfessorCard nts professor rank))"
    using assms(1) by simp
  have here: \<open>sublist
          (lit ''                <span class="detail-label">Matching Papers:</span>\<newline>'' @
           lit ''                <span class="detail-value">'' @
           int_str (num_matching_papers professor) @
           lit ''</span>\<newline>'' @
           lit ''            </div>\<newline>'' @
           lit ''            \<newline>'' @
           lit ''            '' @
           lit ''\<newline>'' @
           lit ''                <div class="detail-row">\<newline>'' @
           lit ''                    <span class="detail-label">Profile:</span>\<newline>'' @
           lit ''                    <span class="detail-value">\<newline>'' @
           lit ''                        <a href="'' @
           u @
           lit ''" target="_blank">View Faculty Page '' @
           [8594] @
           lit ''</a>\<newline>'' @
           lit ''                    </span>\<newline>'' @
           lit ''                </div>\<newline>'' @
           lit ''            '' @
           lit ''\<newline>'' @
           lit ''        </div>\<newline>'')
          ((lit ''                <span class="detail-label">Matching Papers:</span>\<newline>'' @
           lit ''                <span class="detail-value">'' @
           int_str (num_matching_papers professor) @
           lit ''</span>\<newline>'' @
           lit ''            </div>\<newline>'' @
           lit ''            \<newline>'' @
           lit ''            '' @
           lit ''\<newline>'' @
           lit ''                <div class="detail-row">\<newline>'' @
           lit ''                    <span class="detail-label">Profile:</span>\<newline>'' @
           lit ''                    <span class="detail-value">\<newline>'' @
           lit ''                        <a href="'' @
           u @
           lit ''" target="_blank">View Faculty Page '' @
           [8594] @
           lit ''</a>\<newline>'' @
           lit ''                    </span>\<newline>'' @
           lit ''                </div>\<newline>'' @
           lit ''            '' @
           lit ''\<newline>'' @
           lit ''        </div>\<newline>'') @ rest)\<close> for rest
    by (rule sublist_append_rightI)
  show ?thesis
    unfolding e createProfessorCard_def h card_profile_def assms(2)
    apply (simp only: sum.case sum.sel card.simps truthy_str.simps tmpl_str.simps assms(3)
        if_True not_False_eq_True concat.simps append_Nil append_Nil2 append_assoc)
    apply (intro here [unfolded append_assoc] sublist_skip)
    done
qed

text \<open>
  C5: whatever fields of a professor or of a publication are missing, the card is built
  and \<^verbatim>\<open>displayResults\<close> throws nothing. In the HTML that comes out, a missing year is
  rendered as \<^verbatim>\<open>N/A\<close> and missing citations as \<^verbatim>\<open>0\<close>; a missing venue, image or
  profile link leaves its section out, and a publication without a link shows its bare
  title. The card holds the HTML of each of its publications.
\<close>

theorem missing_fields_neutral:
  \<open>(\<exists>element. createProfessorCard number_toString professor rank = Inr element \<and>
      (missing (image_url professor) \<longrightarrow>
         sublist
           (lit ''            <div class="professor-header-content">\<newline>'' @
            lit ''                '' @
            lit ''\<newline>'' @
            lit ''                <div class="professor-info">\<newline>'')
           (innerHTML element)) \<and>
      (missing (profile_url professor) \<longrightarrow>
         sublist
           (lit ''                <span class="detail-label">Matching Papers:</span>\<newline>'' @
            lit ''                <span class="detail-value">'' @
            int_str (num_matching_papers professor) @
            lit ''</span>\<newline>'' @
            lit ''            </div>\<newline>'' @
            lit ''            \<newline>'' @
            lit ''            '' @
            lit ''\<newline>'' @
            lit ''        </div>\<newline>'')
           (innerHTML element)) \<and>
      (\<forall>pubs. top_publications professor = Val pubs \<and> pubs \<noteq> [] \<longrightarrow>
         sublist
           (lit ''                <h4>Top Matching Publications</h4>\<newline>'' @
            lit ''                '' @
            concat (map createPublicationHTML pubs) @
            lit ''\<newline>'' @
            lit ''            </div>\<newline>'')
           (innerHTML element))) \<and>
   fst (displayResults number_toString data s) = None \<and>
   (missing (url publication) \<longrightarrow>
      sublist
           (lit ''            <div class="publication-title">\<newline>'' @
            lit ''                '' @
            title publication @
            lit ''\<newline>'' @
            lit ''            </div>\<newline>'')
           (createPublicationHTML publication)) \<and>
   (missing (year publication) \<longrightarrow>
      sublist
           (lit ''            <div class="publication-meta">\<newline>'' @
            lit ''                <span>'' @
            lit ''N/A'' @
            lit ''</span>\<newline>'')
           (createPublicationHTML publication)) \<and>
   (missing (citations publication) \<longrightarrow>
      sublist
           (lit ''                <span>'' @
            [8226] @
            lit ''</span>\<newline>'' @
            lit ''                <span>'' @
            lit ''0'' @
            lit '' citations</span>\<newline>'')
           (createPublicationHTML publication)) \<and>
   (missing (venue publication) \<longrightarrow>
      sublist
           (lit '' citations</span>\<newline>'' @
            lit ''                '' @
            lit ''\<newline>'' @
            lit ''                <span>'' @
            [8226] @
            lit ''</span>\<newline>'' @
            lit ''                <span class="similarity-score">Paper Similarity: '')
           (createPublicationHTML publication)) \<and>
   (missing (url publication) \<and> missing (year publication) \<and>
    missing (citations publication) \<and> missing (venue publication) \<longrightarrow>
      createPublicationHTML publication =
           lit ''\<newline>'' @
            lit ''        <div class="publication-item '' @
            borderClass (similarity publication) @
            lit ''">\<newline>'' @
            lit ''            <div class="publication-title">\<newline>'' @
            lit ''                '' @
            title publication @
            lit ''\<newline>'' @
            lit ''            </div>\<newline>'' @
            lit ''            <div class="publication-meta">\<newline>'' @
            lit ''                <span>'' @
            lit ''N/A'' @
            lit ''</span>\<newline>'' @
            lit ''                <span>'' @
            [8226] @
            lit ''</span>\<newline>'' @
            lit ''                <span>'' @
            lit ''0'' @
            lit '' citations</span>\<newline>'' @
            lit ''                '' @
            lit ''\<newline>'' @
            lit ''                <span>'' @
            [8226] @
            lit ''</span>\<newline>'' @
            lit ''                <span class="similarity-score">Paper Similarity: '' @
            toFixed (similarity publication * 100) 1 @
            lit ''%</span>\<newline>'' @
            lit ''            </div>\<newline>'' @
            lit ''        </div>\<newline>'' @
            lit ''    '')\<close>
proof -
  obtain element where
    element: "createProfessorCard number_toString professor rank = Inr element"
    using createProfessorCard_total by blast
  show ?thesis
    using element card_without_image [OF element] card_without_profile [OF element]
      card_with_publications [OF element]
      displayResults_never_throws [of number_toString data s]
      publication_without_url [of publication] publication_without_year [of publication]
      publication_without_citations [of publication] publication_without_venue [of publication]
      publication_bare [of publication]
    by blast
qed

theorem missing_fields_neutral_witness:
  \<open>sublist
           (lit ''            <div class="publication-meta">\<newline>'' @
            lit ''                <span>'' @
            lit ''N/A'' @
            lit ''</span>\<newline>'')
           (createPublicationHTML bare_publication) \<and>
   sublist
           (lit ''                <span>'' @
            [8226] @
            lit ''</span>\<newline>'' @
            lit ''                <span>'' @
            lit ''0'' @
            lit '' citations</span>\<newline>'')
           (createPublicationHTML bare_publication) \<and>
   sublist
           (lit '' citations</span>\<newline>'' @
            lit ''                '' @
            lit ''\<newline>'' @
            lit ''                <span>'' @
            [8226] @
            lit ''</span>\<newline>'' @
            lit ''                <span class="similarity-score">Paper Similarity: '')
           (createPublicationHTML bare_publication) \<and>
   sublist
           (lit ''            <div class="publication-title">\<newline>'' @
            lit ''                '' @
            title bare_publication @
            lit ''\<newline>'' @
            lit ''            </div>\<newline>'')
           (createPublicationHTML bare_publication) \<and>
   createPublicationHTML bare_publication =
           lit ''\<newline>'' @
            lit ''        <div class="publication-item '' @
            borderClass (similarity bare_publication) @
            lit ''">\<newline>'' @
            lit ''            <div class="publication-title">\<newline>'' @
            lit ''                '' @
            title bare_publication @
            lit ''\<newline>'' @
            lit ''            </div>\<newline>'' @
            lit ''            <div class="publication-meta">\<newline>'' @
            lit ''                <span>'' @
            lit ''N/A'' @
            lit ''</span>\<newline>'' @
            lit ''                <span>'' @
            [8226] @
            lit ''</span>\<newline>'' @
            lit ''                <span>'' @
            lit ''0'' @
            lit '' citations</span>\<newline>'' @
            lit ''                '' @
            lit ''\<newline>'' @
            lit ''                <span>'' @
            [8226] @
            lit ''</span>\<newline>'' @
            lit ''                <span class="similarity-score">Paper Similarity: '' @
            toFixed (similarity bare_publication * 100) 1 @
            lit ''%</span>\<newline>'' @
            lit ''            </div>\<newline>'' @
            lit ''        </div>\<newline>'' @
            lit ''    '' \<and>
   fst (displayResults sample_number_toString two_hits robotics_page) = None\<close>
proof -
  have m: "missing (url bare_publication)" "missing (year bare_publication)"
    "missing (citations bare_publication)" "missing (venue bare_publication)"
    by (simp_all add: bare_publication_def)
  note th = missing_fields_neutral [of sample_number_toString bare_professor 1 two_hits
      robotics_page bare_publication]
  show ?thesis
    using th m by blast
qed

section \<open>C6: the semantic score and the gauge\<close>

text \<open>
  C6: in semantic mode the composed score of every score card lies in \<open>[0,1]\<close>; so the
  dash offset of the gauge lies between 0 and the full arc (the dash array), and the
  percentage shown is one of 0.0, 0.1, ..., 100.0.
\<close>

theorem semantic_score_bounded:
  "0 \<le> compose w score_card Semantic \<and> compose w score_card Semantic \<le> 1 \<and>
   0 \<le> dashOffset (compose w score_card Semantic) \<and>
   dashOffset (compose w score_card Semantic) \<le> dashArray \<and>
   (\<exists>n\<le>1000. scorePercent (compose w score_card Semantic) = toFixed (real n / 10) 1)"
proof -
  have "0 \<le> compose w score_card Semantic" and "compose w score_card Semantic \<le> 1"
    by (simp_all add: compose_def)
  then show ?thesis
    using gauge_bounds by simp
qed

theorem semantic_score_bounded_witness:
  "0 \<le> compose default_weights bare_professor Semantic \<and>
   compose default_weights bare_professor Semantic \<le> 1 \<and>
   0 \<le> dashOffset (compose default_weights bare_professor Semantic) \<and>
   dashOffset (compose default_weights bare_professor Semantic) \<le> dashArray"
  using semantic_score_bounded [of default_weights bare_professor]
  by simp

section \<open>C7: determinism\<close>

text \<open>
  C7: what \<^verbatim>\<open>displayResults\<close> produces is a function of the response alone. Run on the
  same response from any two pages, it ends the same way; when there are results, the info
  line, the cards in the container and the visibility of the results are the same; when
  there are none, the text and the visibility of the error banner are the same.
  (\<^verbatim>\<open>createProfessorCard\<close> takes no page at all.)
\<close>

theorem displayResults_deterministic:
  \<open>fst (displayResults nts data s1) = fst (displayResults nts data s2) \<and>
   ((\<exists>ps. results data = Val ps \<and> ps \<noteq> []) \<longrightarrow>
      resultsInfo_textContent (snd (displayResults nts data s1)) =
        resultsInfo_textContent (snd (displayResults nts data s2)) \<and>
      resultsContainer (snd (displayResults nts data s1)) =
        resultsContainer (snd (displayResults nts data s2)) \<and>
      resultsSection_hidden (snd (displayResults nts data s1)) =
        resultsSection_hidden (snd (displayResults nts data s2))) \<and>
   (\<not> (\<exists>ps. results data = Val ps \<and> ps \<noteq> []) \<longrightarrow>
      errorMessage_textContent (snd (displayResults nts data s1)) =
        errorMessage_textContent (snd (displayResults nts data s2)) \<and>
      errorMessage_hidden (snd (displayResults nts data s1)) =
        errorMessage_hidden (snd (displayResults nts data s2)))\<close>
proof (cases "\<exists>ps. results data = Val ps \<and> ps \<noteq> []")
  case True
  then obtain ps where "results data = Val ps" "ps \<noteq> []" by blast
  from displayResults_nonempty [OF this, of nts] obtain cs where
    "\<forall>s. displayResults nts data s =
        (None, s\<lparr>resultsInfo_textContent := resultsInfo_text data, resultsContainer := cs,
                 resultsSection_hidden := False\<rparr>)"
    by blast
  then show ?thesis using True by simp
next
  case False
  show ?thesis
    using False by (auto simp add: displayResults_empty [OF False] showError_def)
qed

theorem displayResults_deterministic_witness:
  \<open>resultsContainer (snd (displayResults sample_number_toString two_hits robotics_page)) =
     resultsContainer (snd (displayResults sample_number_toString two_hits stale_page)) \<and>
   resultsInfo_textContent (snd (displayResults sample_number_toString two_hits robotics_page)) =
     resultsInfo_textContent (snd (displayResults sample_number_toString two_hits stale_page)) \<and>
   errorMessage_textContent (snd (displayResults sample_number_toString no_hits robotics_page)) =
     errorMessage_textContent (snd (displayResults sample_number_toString no_hits stale_page))\<close>
proof -
  have t: "\<exists>ps. results two_hits = Val ps \<and> ps \<noteq> []"
    by (simp add: two_hits_def)
  have n: "\<not> (\<exists>ps. results no_hits = Val ps \<and> ps \<noteq> [])"
    by (simp add: no_hits_def)
  show ?thesis
    using t n
      displayResults_deterministic [of sample_number_toString two_hits robotics_page stale_page]
      displayResults_deterministic [of sample_number_toString no_hits robotics_page stale_page]
    by simp
qed

text \<open>
  The same holds of a whole search on the semantic page: two pages with the same inputs
  and a query that is not blank send the same request and, against the same server, show
  the same thing afterwards, whatever they showed before.
\<close>

lemma performSearch_deterministic:
  assumes "searchInput_value s1 = searchInput_value s2"
    and "topKInput_value s1 = topKInput_value s2"
    and "trim (searchInput_value s1) \<noteq> []"
  shows "snd (performSearch nts fetch s1) = snd (performSearch nts fetch s2) \<and>
         visible (fst (performSearch nts fetch s1)) = visible (fst (performSearch nts fetch s2))"
proof -
  let ?req = "search_request (trim (searchInput_value s2)) (topK_of (topKInput_value s2))"
  show ?thesis
  proof (cases "fetch ?req")
    case (Rejected e)
    then show ?thesis
      using assms
      by (simp add: performSearch_def Let_def showLoading_def hideError_def hideResults_def
          showError_def hideLoading_def visible_def)
  next
    case (Response status body)
    show ?thesis
    proof (cases body)
      case (Inl e)
      then show ?thesis
        using assms Response
        by (simp add: performSearch_def Let_def showLoading_def hideError_def hideResults_def
            showError_def hideLoading_def visible_def)
    next
      case (Inr data)
      from displayResults_cases [of nts data] show ?thesis
      proof
        assume "\<exists>cs. \<forall>s. displayResults nts data s =
          (None, s\<lparr>resultsInfo_textContent := resultsInfo_text data, resultsContainer := cs,
                 resultsSection_hidden := False\<rparr>)"
        then obtain cs where "\<forall>s. displayResults nts data s =
          (None, s\<lparr>resultsInfo_textContent := resultsInfo_text data, resultsContainer := cs,
                 resultsSection_hidden := False\<rparr>)" by blast
        then show ?thesis
          using assms Response Inr
          by (simp add: performSearch_def Let_def showLoading_def hideError_def hideResults_def
              showError_def hideLoading_def visible_def)
      next
        assume \<open>\<forall>s. displayResults nts data s =
          (None, showError (lit ''No advisors found for your query. Try different keywords.'') s)\<close>
        then show ?thesis
          using assms Response Inr
          by (simp add: performSearch_def Let_def showLoading_def hideError_def hideResults_def
              showError_def hideLoading_def visible_def)
      qed
    qed
  qed
qed

section \<open>C8: one card per result, in order, numbered\<close>

text \<open>
  C8: for a response with \<open>N > 0\<close> results, \<^verbatim>\<open>displayResults\<close> of the semantic page
  leaves exactly \<open>N\<close> cards in the container, whatever it held before; card \<open>i\<close>
  (from 0) is the card \<^verbatim>\<open>createProfessorCard\<close> builds for result \<open>i\<close> with rank
  \<open>i + 1\<close>, and its heading reads \<^verbatim>\<open><h3>\<close>rank\<^verbatim>\<open>. \<close>name\<^verbatim>\<open></h3>\<close>.
\<close>

theorem cards_in_order:
  assumes "results data = Val ps" and "ps \<noteq> []"
  shows \<open>fst (displayResults nts data s) = None \<and>
         length (resultsContainer (snd (displayResults nts data s))) = length ps \<and>
         (\<forall>i<length ps.
            createProfessorCard nts (ps ! i) (i + 1) =
              Inr (resultsContainer (snd (displayResults nts data s)) ! i) \<and>
            sublist (lit ''<h3>'' @ int_str (int (i + 1)) @ lit ''. '' @ name (ps ! i) @ lit ''</h3>'')
              (innerHTML (resultsContainer (snd (displayResults nts data s)) ! i)))\<close>
proof -
  from displayResults_nonempty [OF assms, of nts] obtain cs where
    len: "length cs = length ps" and
    each: "\<forall>i<length ps. createProfessorCard nts (ps ! i) (i + 1) = Inr (cs ! i)" and
    run: "\<forall>s. displayResults nts data s =
        (None, s\<lparr>resultsInfo_textContent := resultsInfo_text data, resultsContainer := cs,
                 resultsSection_hidden := False\<rparr>)"
    by blast
  have \<open>sublist (lit ''<h3>'' @ int_str (int (i + 1)) @ lit ''. '' @ name (ps ! i) @ lit ''</h3>'')
          (innerHTML (cs ! i))\<close> if "i < length ps" for i
    using each that by (intro card_heading [of nts]) simp
  then show ?thesis
    using len each run by simp
qed

theorem cards_in_order_witness:
  \<open>length (resultsContainer (snd (displayResults sample_number_toString two_hits stale_page))) = 2 \<and>
   sublist (lit ''<h3>1. Ada Lovelace</h3>'')
     (innerHTML (resultsContainer (snd (displayResults sample_number_toString two_hits stale_page)) ! 0)) \<and>
   sublist (lit ''<h3>2. Grace Hopper</h3>'')
     (innerHTML (resultsContainer (snd (displayResults sample_number_toString two_hits stale_page)) ! 1))\<close>
proof -
  have r: "results two_hits = Val [bare_professor, second_professor]"
    by (simp add: two_hits_def)
  have h1: \<open>lit ''<h3>'' @ int_str 1 @ lit ''. '' @ name bare_professor @ lit ''</h3>''
      = lit ''<h3>1. Ada Lovelace</h3>''\<close>
    by (simp add: int_str_small bare_professor_def) (simp add: lit_def)
  have h2: \<open>lit ''<h3>'' @ int_str 2 @ lit ''. '' @ name second_professor @ lit ''</h3>''
      = lit ''<h3>2. Grace Hopper</h3>''\<close>
    by (simp add: int_str_small second_professor_def) (simp add: lit_def)
  note th = cards_in_order [OF r, of sample_number_toString stale_page]
  from th have len:
    "length (resultsContainer (snd (displayResults sample_number_toString two_hits stale_page))) = 2"
    by simp
  from th have each: \<open>\<forall>i<length [bare_professor, second_professor].
     createProfessorCard sample_number_toString ([bare_professor, second_professor] ! i) (i + 1) =
       Inr (resultsContainer (snd (displayResults sample_number_toString two_hits stale_page)) ! i) \<and>
     sublist (lit ''<h3>'' @ int_str (int (i + 1)) @ lit ''. '' @
         name ([bare_professor, second_professor] ! i) @ lit ''</h3>'')
       (innerHTML (resultsContainer (snd (displayResults sample_number_toString two_hits stale_page)) ! i))\<close>
    by blast
  have \<open>sublist (lit ''<h3>'' @ int_str 1 @ lit ''. '' @ name bare_professor @ lit ''</h3>'')
     (innerHTML (resultsContainer (snd (displayResults sample_number_toString two_hits stale_page)) ! 0))\<close>
    using each [rule_format, of 0] by simp
  moreover
  have \<open>sublist (lit ''<h3>'' @ int_str 2 @ lit ''. '' @ name second_professor @ lit ''</h3>'')
     (innerHTML (resultsContainer (snd (displayResults sample_number_toString two_hits stale_page)) ! 1))\<close>
    using each [rule_format, of 1] by simp
  ultimately show ?thesis
    using len unfolding h1 h2 by simp
qed

section \<open>C9: the two truncateText functions\<close>

text \<open>
  C9 as stated fails: on \<^verbatim>\<open>null\<close> (and \<^verbatim>\<open>undefined\<close>) the function of the semantic
  page throws a TypeError at \<^verbatim>\<open>text.length\<close>, and the function of the BM25 page returns
  its argument.
\<close>

theorem truncateText_null_counterexample:
  \<open>truncateText Null 200 = Inl (TypeError (lit ''Cannot read properties of null (reading 'length')''))
   \<and> bm25_truncateText Null 200 = Null\<close>
  by (simp add: truncateText_def bm25_truncateText_def)

text \<open>
  On the empty string the two differ as well when \<open>maxLength\<close> is negative: the BM25
  page returns the empty string, the semantic page the three dots.
\<close>

lemma truncateText_empty_negative:
  \<open>truncateText (Val []) (- 1) = Inr (Val (lit ''...'')) \<and> bm25_truncateText (Val []) (- 1) = Val []\<close>
  by (simp add: truncateText_def bm25_truncateText_def)

text \<open>
  C9, amended: on every string and every \<open>maxLength\<close> the function of the semantic page
  returns the text unchanged when its length is at most \<open>maxLength\<close> and otherwise its
  first \<open>maxLength\<close> code units followed by three dots; the function of the BM25 page
  returns the same whenever \<open>maxLength\<close> is not negative or the string is not empty.
\<close>

theorem truncateText_agree:
  \<open>truncateText (Val t) maxLength = Inr (Val (truncateText_spec t maxLength)) \<and>
   (0 \<le> maxLength \<or> t \<noteq> [] \<longrightarrow>
      bm25_truncateText (Val t) maxLength = Val (truncateText_spec t maxLength))\<close>
  by (auto simp add: truncateText_def bm25_truncateText_def truncateText_spec_def)

theorem truncateText_agree_witness:
  \<open>truncateText (Val (lit ''robotics'')) 5 = Inr (Val (lit ''robot...'')) \<and>
   bm25_truncateText (Val (lit ''robotics'')) 5 = Val (lit ''robot...'') \<and>
   bm25_truncateText (Val (lit ''robotics'')) 8 = Val (lit ''robotics'')\<close>
  using truncateText_agree [of \<open>lit ''robotics''\<close> 5] truncateText_agree [of \<open>lit ''robotics''\<close> 8]
  by (simp add: truncateText_spec_def lit_def)

section \<open>C10: the three colour bands\<close>

text \<open>
  The threshold the source writes \<^verbatim>\<open>0.3\<close> is the double nearest to three tenths, just
  below it; no double lies between the two.
\<close>

lemma double_0_3_nearest: "double_0_3 < 3 / 10 \<and> 3 / 10 - double_0_3 < 1 / 2 ^ 55"
  by (simp add: double_0_3_def)

text \<open>
  C10: the gauge colour of a professor card and the border class of a publication are the
  same three bands of the score, with the numbers \<^verbatim>\<open>0.5\<close> and \<^verbatim>\<open>0.3\<close> of the source
  (the doubles they denote) as thresholds: green exactly when the score is above 0.5,
  amber exactly when it is between 0.3 and 0.5 (both included), red exactly when it is
  below 0.3. The bands are disjoint and cover every score, so the two classifiers agree
  everywhere.
\<close>

theorem threshold_bands:
  \<open>(gaugeColor s = lit ''#28a745'' \<longleftrightarrow> s > 0.5) \<and>
   (gaugeColor s = lit ''#ffc107'' \<longleftrightarrow> double_0_3 \<le> s \<and> s \<le> 0.5) \<and>
   (gaugeColor s = lit ''#dc3545'' \<longleftrightarrow> s < double_0_3) \<and>
   (borderClass s = lit ''pub-border-green'' \<longleftrightarrow> s > 0.5) \<and>
   (borderClass s = lit ''pub-border-amber'' \<longleftrightarrow> double_0_3 \<le> s \<and> s \<le> 0.5) \<and>
   (borderClass s = lit ''pub-border-red'' \<longleftrightarrow> s < double_0_3)\<close>
  by (simp add: gaugeColor_def borderClass_def lit_def double_0_3_def)

text \<open>
  At doubles: one half, the double written \<^verbatim>\<open>0.3\<close>, the double just below it, three
  quarters and one quarter.
\<close>

theorem threshold_bands_witness:
  \<open>gaugeColor (1 / 2) = lit ''#ffc107'' \<and> borderClass (1 / 2) = lit ''pub-border-amber'' \<and>
   gaugeColor double_0_3 = lit ''#ffc107'' \<and> borderClass double_0_3 = lit ''pub-border-amber'' \<and>
   gaugeColor (5404319552844594 / 18014398509481984) = lit ''#dc3545'' \<and>
   borderClass (5404319552844594 / 18014398509481984) = lit ''pub-border-red'' \<and>
   gaugeColor (3 / 4) = lit ''#28a745'' \<and> borderClass (1 / 4) = lit ''pub-border-red''\<close>
  using threshold_bands [of "1 / 2"] threshold_bands [of double_0_3]
    threshold_bands [of "5404319552844594 / 18014398509481984"]
    threshold_bands [of "3 / 4"] threshold_bands [of "1 / 4"]
  by (simp add: double_0_3_def)

end
